theory Spec2Isabelle
  imports Main "HOL-Library.Word"
begin

section \<open>fracture-autodis: the instruction census map step\<close>

text \<open>
  A shallow embedding of \<^verbatim>\<open>tools/fracture-autodis/fracture-autodis.cpp\<close>.
  The file drives LLVM and three classes of its own repository (\<^verbatim>\<open>MCDirector\<close>,
  \<^verbatim>\<open>Disassembler\<close>, \<^verbatim>\<open>DummyObjectFile\<close>) whose sources are not part of it.
  What those return is a parameter of the model (the record \<open>env\<close>); what the file itself
  does with the results is translated statement by statement.
\<close>

subsection \<open>Values\<close>

type_synonym addr = "64 word"

text \<open>
  \<^verbatim>\<open>error_code\<close>: the two codes the file makes itself, and any other code a
  library call hands back, with its message. The messages of the first two are the
  C library's.
\<close>

datatype error_code =
    errc_no_such_file_or_directory
  | errc_not_supported
  | other_error string

fun message :: "error_code \<Rightarrow> string" where
  "message errc_no_such_file_or_directory = ''No such file or directory''"
| "message errc_not_supported = ''Operation not supported''"
| "message (other_error m) = m"

datatype symbol_type = ST_Unknown | ST_Data | ST_Debug | ST_File | ST_Function | ST_Other

text \<open>
  A \<^verbatim>\<open>SymbolRef\<close> and a row of the section table, as their accessors show them:
  each accessor returns an error code or a value (\<open>Inl\<close> is the error).
\<close>

record symbol_ref =
  sym_name :: "error_code + string"
  sym_addr :: "error_code + addr"
  sym_type :: "error_code + symbol_type"

record section_row =
  sec_name :: "error_code + string"
  sec_addr :: "error_code + addr"
  sec_size :: "error_code + addr"

text \<open>
  The classes the \<^verbatim>\<open>dyn_cast\<close> chains of the file tell apart; \<open>OtherObject\<close> is
  every other \<^verbatim>\<open>ObjectFile\<close> (a \<^verbatim>\<open>DummyObjectFile\<close> among them).
\<close>

datatype file_kind = COFF | ELF32LE | ELF32BE | ELF64BE | ELF64LE | OtherObject

text \<open>
  An object file. A \<^verbatim>\<open>SectionRef\<close> is a position in the section table
  (\<open>SectionRef = nat\<close>), and \<^verbatim>\<open>*section_end()\<close> is the position one past the last
  row; two references are equal when their positions are. \<open>obj_past_end\<close> is what the
  accessors read at that position.
\<close>

type_synonym SectionRef = nat

record object_file =
  obj_kind :: file_kind
  obj_arch :: nat
  obj_data :: "8 word list"
  obj_sections :: "section_row list"
  obj_past_end :: section_row
  obj_symbols :: "symbol_ref list"

definition section_end :: "object_file \<Rightarrow> SectionRef" where
  "section_end obj = length (obj_sections obj)"

definition section_at :: "object_file \<Rightarrow> SectionRef \<Rightarrow> section_row" where
  "section_at obj i = (if i < length (obj_sections obj) then obj_sections obj ! i else obj_past_end obj)"

text \<open>What \<^verbatim>\<open>object::createBinary\<close> returns: an object file, or a binary that is none (an archive).\<close>

datatype binary = Object object_file | NonObject

text \<open>
  A \<^verbatim>\<open>MachineFunction\<close>: its basic blocks in order, each the opcodes of its
  instructions in order. Both lists are intrusive linked lists whose \<^verbatim>\<open>end()\<close> is a
  sentinel node; \<open>mf_sentinel\<close> is the instruction list that a read through the block
  sentinel finds.
\<close>

record MachineFunction =
  mf_blocks :: "nat list list"
  mf_sentinel :: "nat list"

subsection \<open>The environment of one run\<close>

text \<open>
  The file system, the LLVM calls and the decoder engine. \<open>dummy_past_end\<close> is what
  a read one past the (empty) section table of a dummy object file finds. \<open>uninit_Address\<close> and
  \<open>uninit_SectSize\<close> are the values the locals \<^verbatim>\<open>Address\<close> of
  \<^verbatim>\<open>runSymbolsCommand\<close> and \<^verbatim>\<open>SectSize\<close> of \<^verbatim>\<open>dumpELFSymbols\<close>
  hold before anything is stored in them: both are declared without an initialiser and
  read on a path that stores nothing.
\<close>

record env =
  fs_exists :: "string \<Rightarrow> bool"
  createBinary :: "string \<Rightarrow> error_code + binary"
  MemoryBuffer_getFile :: "string \<Rightarrow> error_code + 8 word list"
  Features_getString :: "string list \<Rightarrow> string"
  Triple_setArch :: "nat \<Rightarrow> string \<Rightarrow> string"
  Triple_normalize :: "string \<Rightarrow> string"
  Triple_setArchName :: "string \<Rightarrow> string \<Rightarrow> string"
  MCDirector_isValid :: "string \<Rightarrow> string \<Rightarrow> bool"
  getAsInteger :: "string \<Rightarrow> addr option"
  disassemble :: "addr \<Rightarrow> MachineFunction option"
  MCInstrInfo_getName :: "nat \<Rightarrow> string"
  dummy_past_end :: section_row
  uninit_Address :: addr
  uninit_SectSize :: addr

text \<open>The command line: \<^verbatim>\<open>argv[0]\<close> and the \<^verbatim>\<open>cl::opt\<close> values after parsing.\<close>

record options =
  argv0 :: string
  opt_TripleName :: string
  ArchName :: string
  InputFileName :: string
  MAttrs :: "string list"

subsection \<open>Global variables and the two streams\<close>

text \<open>
  Every \<^verbatim>\<open><<\<close> statement on \<^verbatim>\<open>outs()\<close> or \<^verbatim>\<open>errs()\<close> is one event, in program
  order. \<open>MCD\<close> holds the triple and feature string the director was built for,
  \<open>DAS\<close> the executable pointer the disassembler was built with.
\<close>

datatype event = Outs string | Errs string

record globals =
  ProgramName :: string
  TempExecutable :: "object_file option"
  TripleName :: string
  MCD :: "(string \<times> string) option"
  DAS :: "object_file option option"
  io :: "event list"

definition outs :: "string \<Rightarrow> globals \<Rightarrow> globals" where
  "outs s g = g\<lparr>io := io g @ [Outs s]\<rparr>"

definition errs :: "string \<Rightarrow> globals \<Rightarrow> globals" where
  "errs s g = g\<lparr>io := io g @ [Errs s]\<rparr>"

fun stdout_of :: "event list \<Rightarrow> string list" where
  "stdout_of [] = []"
| "stdout_of (Outs s # evs) = s # stdout_of evs"
| "stdout_of (Errs s # evs) = stdout_of evs"

fun stderr_of :: "event list \<Rightarrow> string list" where
  "stderr_of [] = []"
| "stderr_of (Outs s # evs) = stderr_of evs"
| "stderr_of (Errs s # evs) = s # stderr_of evs"

definition nl :: string where
  "nl = [CHR 0x0A]"

definition quote :: string where
  "quote = [CHR 0x27]"

text \<open>
  How a call ends: it returns, or the process dies first, on a null pointer
  (\<open>NullDeref\<close>) or on the \<^verbatim>\<open>std::out_of_range\<close> that \<^verbatim>\<open>substr\<close> throws
  (\<open>OutOfRange\<close>).
\<close>

datatype 'a exec = NullDeref | OutOfRange | Ret 'a

text \<open>\<^verbatim>\<open>static bool error(error_code ec)\<close>; \<open>None\<close> is the success code.\<close>

definition error :: "error_code option \<Rightarrow> globals \<Rightarrow> bool \<times> globals" where
  "error ec g =
     (case ec of
        None \<Rightarrow> (False, g)
      | Some e \<Rightarrow>
          (True, errs (ProgramName g @ '': error reading file: '' @ message e @ ''.'' @ nl) g))"

subsection \<open>Repository code that the source only calls\<close>

text \<open>
  Modelled from the spec: \<^verbatim>\<open>Disassembler::getSectionByName\<close> is not in the source.
  The spec has sections "queried by name" with an "exact name match"; the first row
  whose name reads as the given one is returned, and the end position when there is none.
\<close>

fun find_section :: "(section_row \<Rightarrow> bool) \<Rightarrow> section_row list \<Rightarrow> nat \<Rightarrow> SectionRef" where
  "find_section P [] i = i"
| "find_section P (r # rs) i = (if P r then i else find_section P rs (Suc i))"

definition getSectionByName :: "object_file \<Rightarrow> string \<Rightarrow> SectionRef" where
  "getSectionByName obj n = find_section (\<lambda>r. sec_name r = Inr n) (obj_sections obj) 0"

text \<open>
  Modelled from the spec: \<^verbatim>\<open>Disassembler::getSectionByAddress\<close> is not in the source.
  The spec has sections queried "by address-containment", the range of a section being
  \<^verbatim>\<open>[base, base+length)\<close>; the first such row is returned, and the end position when
  there is none.
\<close>

definition contains_address :: "addr \<Rightarrow> section_row \<Rightarrow> bool" where
  "contains_address a r =
     (case sec_addr r of
        Inl e \<Rightarrow> False
      | Inr base \<Rightarrow>
          (case sec_size r of
             Inl e \<Rightarrow> False
           | Inr sz \<Rightarrow> unat base \<le> unat a \<and> unat a < unat base + unat sz))"

definition getSectionByAddress :: "object_file \<Rightarrow> addr \<Rightarrow> SectionRef" where
  "getSectionByAddress obj a = find_section (contains_address a) (obj_sections obj) 0"

text \<open>
  Modelled from the spec: \<^verbatim>\<open>DummyObjectFile::createDummyObjectFile\<close> is not in the
  source. The spec's Unknown container "wraps the raw bytes without structural parsing and
  yields no sections/symbols" and declares an "unknown" architecture (\<^verbatim>\<open>UnknownArch\<close>
  is 0). What a read one past its empty section table finds is left open.
\<close>

definition createDummyObjectFile :: "section_row \<Rightarrow> 8 word list \<Rightarrow> object_file" where
  "createDummyObjectFile junk buf =
     \<lparr>obj_kind = OtherObject, obj_arch = 0, obj_data = buf, obj_sections = [],
      obj_past_end = junk, obj_symbols = []\<rparr>"

subsection \<open>loadBinary\<close>

text \<open>
  The second half of \<^verbatim>\<open>loadBinary\<close>, from the comment "Initialize the Disassembler"
  on: the feature string, the triple, the three \<^verbatim>\<open>new\<close>s and the validity test.
  \<^verbatim>\<open>TempExecutable->getArch()\<close> is the one dereference; the \<^verbatim>\<open>Decompiler\<close> that is
  built as well is used nowhere on the path of \<^verbatim>\<open>main\<close> and has no field here.
\<close>

definition initDisassembler :: "env \<Rightarrow> options \<Rightarrow> globals \<Rightarrow> (error_code option \<times> globals) exec" where
  "initDisassembler E opts g =
     (let FeaturesStr = (if MAttrs opts \<noteq> [] then Features_getString E (MAttrs opts) else [])
      in case (if TripleName g = []
               then (case TempExecutable g of
                       None \<Rightarrow> None
                     | Some exe \<Rightarrow> Some (Triple_setArch E (obj_arch exe) ''unknown-unknown-unknown''))
               else Some (Triple_normalize E (TripleName g))) of
           None \<Rightarrow> NullDeref
         | Some TT \<Rightarrow>
             (let TT' = (if ArchName opts \<noteq> [] then Triple_setArchName E (ArchName opts) TT else TT);
                  g' = g\<lparr>TripleName := TT', MCD := Some (TT', FeaturesStr),
                         DAS := Some (TempExecutable g)\<rparr>
              in if \<not> MCDirector_isValid E TT' FeaturesStr
                 then Ret (Some errc_not_supported,
                           errs (''Warning: Unable to initialized LLVM MC API!'' @ nl) g')
                 else Ret (None, g')))"

definition loadBinary :: "env \<Rightarrow> options \<Rightarrow> string \<Rightarrow> globals \<Rightarrow> (error_code option \<times> globals) exec" where
  "loadBinary E opts FileName g =
     (if FileName \<noteq> ''-'' \<and> \<not> fs_exists E FileName
      then Ret (Some errc_no_such_file_or_directory,
                errs (ProgramName g @ '': No such file or directory: '' @ quote @ FileName
                      @ quote @ ''.'' @ nl) g)
      else
        (case createBinary E FileName of
           Inl err \<Rightarrow>
             (let g1 = errs (ProgramName g @ '': Unknown file format: '' @ quote @ FileName
                             @ quote @ ''.'' @ nl @ '' Error Msg: '' @ message err @ nl) g
              in case MemoryBuffer_getFile E FileName of
                   Inl err2 \<Rightarrow>
                     Ret (Some err2,
                          errs (ProgramName g @ '': BLAH!: '' @ quote @ FileName @ quote
                                @ ''.'' @ nl) g1)
                 | Inr MemBuf \<Rightarrow>
                     initDisassembler E opts
                       (g1\<lparr>TempExecutable :=
                              Some (createDummyObjectFile (dummy_past_end E) MemBuf)\<rparr>))
         | Inr (Object obj) \<Rightarrow> initDisassembler E opts (g\<lparr>TempExecutable := Some obj\<rparr>)
         | Inr NonObject \<Rightarrow> initDisassembler E opts g))"

subsection \<open>The symbol scanner\<close>

text \<open>
  The second loop of \<^verbatim>\<open>dumpELFSymbols\<close>, over the copy \<^verbatim>\<open>Syms\<close> of the symbol
  table. \<^verbatim>\<open>Address\<close> is the parameter, an \<^verbatim>\<open>unsigned\<close> (32 bits); in the comparisons
  it is converted to the 64 bits of \<^verbatim>\<open>Addr\<close> and \<^verbatim>\<open>SectSize\<close>, and the sum wraps.
  \<^verbatim>\<open>ec\<close> is never assigned, so the test \<^verbatim>\<open>error(ec)\<close> is \<open>error None\<close>.
\<close>

fun dumpELFSymbols_loop ::
  "32 word \<Rightarrow> addr \<Rightarrow> symbol_ref list \<Rightarrow> symbol_ref list \<Rightarrow> globals \<Rightarrow> symbol_ref list \<times> globals" where
  "dumpELFSymbols_loop Address SectSize [] res g = (res, g)"
| "dumpELFSymbols_loop Address SectSize (si # Syms) res g =
     (if fst (error None g) then (res, g)
      else
        (case sym_type si of
           Inl e \<Rightarrow> dumpELFSymbols_loop Address SectSize Syms res (snd (error (Some e) g))
         | Inr Type \<Rightarrow>
             (case sym_addr si of
                Inl e \<Rightarrow> dumpELFSymbols_loop Address SectSize Syms res (snd (error (Some e) g))
              | Inr Addr \<Rightarrow>
                  if Type = ST_Function \<and> Addr \<noteq> 0 \<and> Addr \<ge> ucast Address
                     \<and> Addr \<le> ucast Address + SectSize
                  then dumpELFSymbols_loop Address SectSize Syms (res @ [si]) g
                  else dumpELFSymbols_loop Address SectSize Syms res g)))"

text \<open>The test of that loop on one symbol, as a predicate.\<close>

definition retained :: "32 word \<Rightarrow> addr \<Rightarrow> symbol_ref \<Rightarrow> bool" where
  "retained Address SectSize si =
     (case sym_type si of
        Inl e \<Rightarrow> False
      | Inr Type \<Rightarrow>
          (case sym_addr si of
             Inl e \<Rightarrow> False
           | Inr Addr \<Rightarrow>
               Type = ST_Function \<and> Addr \<noteq> 0 \<and> Addr \<ge> ucast Address
               \<and> Addr \<le> ucast Address + SectSize))"

text \<open>
  \<^verbatim>\<open>dumpELFSymbols\<close>. The section is \<^verbatim>\<open>DAS->getSectionByName(".text")\<close>, looked up in
  the executable of the disassembler, which is the \<^verbatim>\<open>elf\<close> passed in. When
  \<^verbatim>\<open>getSize\<close> fails the message is printed and \<^verbatim>\<open>SectSize\<close> keeps what it held.
\<close>

definition dumpELFSymbols :: "env \<Rightarrow> object_file \<Rightarrow> 32 word \<Rightarrow> globals \<Rightarrow> symbol_ref list \<times> globals" where
  "dumpELFSymbols E elf Address g =
     (let Syms = obj_symbols elf;
          Sect = getSectionByName elf ''.text''
      in case sec_size (section_at elf Sect) of
           Inl e \<Rightarrow> dumpELFSymbols_loop Address (uninit_SectSize E) Syms [] (snd (error (Some e) g))
         | Inr SectSize \<Rightarrow> dumpELFSymbols_loop Address SectSize Syms [] g)"

text \<open>\<^verbatim>\<open>dumpCOFFSymbols\<close>: "TODO: fix this", an empty vector, and the rest commented out.\<close>

definition dumpCOFFSymbols :: "object_file \<Rightarrow> addr \<Rightarrow> symbol_ref list" where
  "dumpCOFFSymbols coff Address = []"

text \<open>
  \<^verbatim>\<open>runSymbolsCommand\<close>, with the lookup of the section the argument names
  (\<open>resolveSection\<close>) written apart. \<^verbatim>\<open>getAsInteger\<close> returns true when the text is
  no integer (\<open>None\<close> here) and stores nothing then, so the address lookup runs on what
  \<^verbatim>\<open>Address\<close> held before. The first dereference of \<^verbatim>\<open>Executable\<close> is
  \<^verbatim>\<open>*Executable->section_end()\<close>. After the lookup \<^verbatim>\<open>Section\<close> is assigned
  \<^verbatim>\<open>DAS->getSectionByName(".text")\<close>.
\<close>

definition resolveSection :: "env \<Rightarrow> object_file \<Rightarrow> string \<Rightarrow> SectionRef" where
  "resolveSection E Executable SectionNameOrAddress =
     (let Address0 = (case getAsInteger E SectionNameOrAddress of
                        None \<Rightarrow> uninit_Address E
                      | Some a \<Rightarrow> a);
          Section0 = (if getAsInteger E SectionNameOrAddress = None \<and> Address0 \<noteq> 0
                      then getSectionByAddress Executable Address0
                      else section_end Executable)
      in if Section0 = section_end Executable
         then getSectionByName Executable SectionNameOrAddress
         else Section0)"

definition runSymbolsCommand :: "env \<Rightarrow> string list \<Rightarrow> globals \<Rightarrow> (symbol_ref list \<times> globals) exec" where
  "runSymbolsCommand E CommandLine g =
     (if length CommandLine < 2
      then Ret ([], outs (''Did not understand section name or address.'' @ nl) g)
      else
        (let SectionNameOrAddress = CommandLine ! 1
         in case DAS g of
              None \<Rightarrow> NullDeref
            | Some None \<Rightarrow> NullDeref
            | Some (Some Executable) \<Rightarrow>
                if resolveSection E Executable SectionNameOrAddress = section_end Executable
                then Ret ([], errs (''Could not find section!'' @ nl) g)
                else
                  (let Section = getSectionByName Executable ''.text''
                   in case sec_addr (section_at Executable Section) of
                        Inl e \<Rightarrow> Ret ([], snd (error (Some e) g))
                      | Inr Address \<Rightarrow>
                          (let g1 = (case sec_name (section_at Executable Section) of
                                       Inl e \<Rightarrow> snd (error (Some e) g)
                                     | Inr SectionName \<Rightarrow> g)
                           in case obj_kind Executable of
                                COFF \<Rightarrow> Ret (dumpCOFFSymbols Executable Address, g1)
                              | ELF32LE \<Rightarrow> Ret (dumpELFSymbols E Executable (ucast Address) g1)
                              | ELF32BE \<Rightarrow> Ret (dumpELFSymbols E Executable (ucast Address) g1)
                              | ELF64BE \<Rightarrow> Ret (dumpELFSymbols E Executable (ucast Address) g1)
                              | ELF64LE \<Rightarrow> Ret (dumpELFSymbols E Executable (ucast Address) g1)
                              | OtherObject \<Rightarrow>
                                  Ret ([], errs (''Unsupported section type.'' @ nl) g1)))))"

subsection \<open>The census driver\<close>

definition instruction_record :: "env \<Rightarrow> nat \<Rightarrow> string" where
  "instruction_record E opcode = MCInstrInfo_getName E opcode @ [CHR 0x09] @ ''1'' @ nl"

definition telemetry :: string where
  "telemetry = ''reporter:counter:SkippingTaskCounters,MapProcessedRecords,1'' @ nl"

text \<open>
  The \<^verbatim>\<open>while\<close> loop of \<^verbatim>\<open>main\<close>. An iterator is the rest of its list: \<open>BI\<close> the
  blocks from the current one on (\<^verbatim>\<open>BI == BE\<close> is \<open>BI = []\<close>, \<^verbatim>\<open>++BI\<close> is \<open>tl\<close>),
  \<open>II\<close> the instructions of the current block from the current one on (\<^verbatim>\<open>II == IE\<close>
  is \<open>II = []\<close>). \<open>k\<close> is the position of \<open>BI\<close> in the function, counted along for the
  second component of the state: the positions at which the loop dereferences \<open>BI\<close>
  (\<^verbatim>\<open>BI->size()\<close>, \<^verbatim>\<open>BI->instr_begin()\<close>, \<^verbatim>\<open>BI->instr_end()\<close>), in order. The end
  of a function of \<open>n\<close> blocks is position \<open>n\<close>; a dereference there reads the sentinel.
  The iterators read there are never used: the loop test fails on \<^verbatim>\<open>BI != BE\<close> first.
\<close>

function emit_loop ::
  "env \<Rightarrow> MachineFunction \<Rightarrow> nat \<Rightarrow> nat list list \<Rightarrow> nat list \<Rightarrow> globals \<times> nat list \<Rightarrow> globals \<times> nat list" where
  "emit_loop E MF k BI II (g, derefs) =
     (if BI \<noteq> [] \<and> hd BI \<noteq> []
      then
        (let g' = outs (instruction_record E (hd II)) g;
             II' = tl II
         in if II' = []
            then
              (let BI' = tl BI
               in emit_loop E MF (Suc k) BI' (case BI' of [] \<Rightarrow> mf_sentinel MF | B # Bs \<Rightarrow> B)
                    (g', derefs @ [k, Suc k, Suc k]))
            else emit_loop E MF k BI II' (g', derefs @ [k]))
      else (g, if BI \<noteq> [] then derefs @ [k] else derefs))"
  by pat_completeness auto
termination
  apply (relation "measures [\<lambda>(E, MF, k, BI, II, s). length BI, \<lambda>(E, MF, k, BI, II, s). length II]")
    apply auto
  subgoal for BI II by (cases II) simp_all
  done

text \<open>The body of the \<^verbatim>\<open>for\<close> loop of \<^verbatim>\<open>main\<close> over \<^verbatim>\<open>Symbols\<close>, and the loop.\<close>

definition census_symbol :: "env \<Rightarrow> symbol_ref \<Rightarrow> globals \<Rightarrow> globals" where
  "census_symbol E Sym g =
     (case sym_addr Sym of
        Inl e \<Rightarrow> snd (error (Some e) g)
      | Inr SymAddr \<Rightarrow>
          if SymAddr = 0 then g
          else
            (case sym_name Sym of
               Inl e \<Rightarrow> snd (error (Some e) g)
             | Inr SymName \<Rightarrow>
                 (case disassemble E SymAddr of
                    None \<Rightarrow> g
                  | Some MF \<Rightarrow>
                      if length (mf_blocks MF) = 0 then g
                      else
                        (let BI = mf_blocks MF
                         in if BI = [] \<or> hd BI = [] then g
                            else fst (emit_loop E MF 0 BI (hd BI) (g, []))))))"

fun census_loop :: "env \<Rightarrow> symbol_ref list \<Rightarrow> globals \<Rightarrow> globals" where
  "census_loop E [] g = g"
| "census_loop E (Sym # Symbols) g = census_loop E Symbols (census_symbol E Sym g)"

text \<open>
  \<^verbatim>\<open>main\<close>, after the command line is parsed. \<^verbatim>\<open>substr(2, length - 2)\<close> throws when
  \<^verbatim>\<open>argv[0]\<close> is shorter than 2. The load is of \<^verbatim>\<open>"-"\<close> whatever
  \<^verbatim>\<open>InputFileName\<close> is; the last statement before \<^verbatim>\<open>return 0\<close> writes the counter
  line to \<^verbatim>\<open>errs()\<close>.
\<close>

definition initial_globals :: "options \<Rightarrow> globals" where
  "initial_globals opts =
     \<lparr>ProgramName = drop 2 (argv0 opts), TempExecutable = None,
      TripleName = opt_TripleName opts, MCD = None, DAS = None, io = []\<rparr>"

definition main :: "env \<Rightarrow> options \<Rightarrow> (int \<times> globals) exec" where
  "main E opts =
     (if length (argv0 opts) < 2 then OutOfRange
      else
        (case loadBinary E opts ''-'' (initial_globals opts) of
           NullDeref \<Rightarrow> NullDeref
         | OutOfRange \<Rightarrow> OutOfRange
         | Ret (None, g) \<Rightarrow>
             (case runSymbolsCommand E [''sym'', ''.text''] g of
                NullDeref \<Rightarrow> NullDeref
              | OutOfRange \<Rightarrow> OutOfRange
              | Ret (Symbols, g1) \<Rightarrow> Ret (0, errs telemetry (census_loop E Symbols g1)))
         | Ret (Some Err, g) \<Rightarrow>
             Ret (- 1,
                  errs (ProgramName g @ '': Could not open stdin file!'' @ quote
                        @ InputFileName opts @ quote @ ''. '' @ message Err @ ''.'' @ nl) g)))"

subsection \<open>What a run leaves behind\<close>

definition returned :: "'a exec \<Rightarrow> 'a option" where
  "returned r = (case r of Ret x \<Rightarrow> Some x | NullDeref \<Rightarrow> None | OutOfRange \<Rightarrow> None)"

definition exit_status :: "(int \<times> globals) exec \<Rightarrow> int option" where
  "exit_status r = (case r of Ret (code, g) \<Rightarrow> Some code | NullDeref \<Rightarrow> None | OutOfRange \<Rightarrow> None)"

definition run_io :: "(int \<times> globals) exec \<Rightarrow> event list" where
  "run_io r = (case r of Ret (code, g) \<Rightarrow> io g | NullDeref \<Rightarrow> [] | OutOfRange \<Rightarrow> [])"

text \<open>
  Three predicates for the proofs: a diagnostic is a write to \<^verbatim>\<open>errs()\<close> that holds a
  blank, which every message of the file does; a record event is a write of one
  instruction record to \<^verbatim>\<open>outs()\<close>; \<open>extends_io P g g'\<close> says that \<open>g'\<close> has the
  events of \<open>g\<close> and then only events that satisfy \<open>P\<close>.
\<close>

definition is_diag :: "event \<Rightarrow> bool" where
  "is_diag ev = (case ev of Outs s \<Rightarrow> False | Errs s \<Rightarrow> CHR '' '' \<in> set s)"

definition is_record :: "env \<Rightarrow> event \<Rightarrow> bool" where
  "is_record E ev = (case ev of Outs s \<Rightarrow> s \<in> range (instruction_record E) | Errs s \<Rightarrow> False)"

definition extends_io :: "(event \<Rightarrow> bool) \<Rightarrow> globals \<Rightarrow> globals \<Rightarrow> bool" where
  "extends_io P g g' = (\<exists>es. io g' = io g @ es \<and> list_all P es)"

subsection \<open>The symbol filter in the words of the specification\<close>

text \<open>
  The specification keeps the entries "where kind = function AND address \<noteq> 0 AND address
  \<noteq> the unknown address sentinel AND section.base \<le> address \<le> section.base +
  section.size", in symbol-table order. The sentinel is LLVM's
  \<^verbatim>\<open>UnknownAddressOrSize\<close>, all 64 bits set; the bounds are compared as numbers.
\<close>

definition UnknownAddressOrSize :: addr where
  "UnknownAddressOrSize = - 1"

definition spec_retained :: "addr \<Rightarrow> addr \<Rightarrow> symbol_ref \<Rightarrow> bool" where
  "spec_retained base sz s =
     (sym_type s = Inr ST_Function \<and>
      (case sym_addr s of
         Inl e \<Rightarrow> False
       | Inr a \<Rightarrow> a \<noteq> 0 \<and> a \<noteq> UnknownAddressOrSize
                  \<and> unat base \<le> unat a \<and> unat a \<le> unat base + unat sz))"

definition spec_scanFunctions :: "addr \<Rightarrow> addr \<Rightarrow> symbol_ref list \<Rightarrow> symbol_ref list" where
  "spec_scanFunctions base sz syms = filter (spec_retained base sz) syms"

subsection \<open>Example inputs\<close>

definition function_symbol :: "string \<Rightarrow> addr \<Rightarrow> symbol_ref" where
  "function_symbol n a = \<lparr>sym_name = Inr n, sym_addr = Inr a, sym_type = Inr ST_Function\<rparr>"

definition mk_section :: "string \<Rightarrow> addr \<Rightarrow> addr \<Rightarrow> section_row" where
  "mk_section n base sz = \<lparr>sec_name = Inr n, sec_addr = Inr base, sec_size = Inr sz\<rparr>"

text \<open>
  An object file with \<^verbatim>\<open>.text\<close> at 0x1000 and \<^verbatim>\<open>.data\<close> at 0x2000, 0x100 bytes
  each, a function symbol \<^verbatim>\<open>foo\<close> at 0x1000 and a function symbol \<^verbatim>\<open>bar\<close> at 0x2008.
\<close>

definition example_object :: "file_kind \<Rightarrow> object_file" where
  "example_object k =
     \<lparr>obj_kind = k, obj_arch = 1, obj_data = [],
      obj_sections = [mk_section ''.text'' 0x1000 0x100, mk_section ''.data'' 0x2000 0x100],
      obj_past_end = mk_section [] 0 0,
      obj_symbols = [function_symbol ''foo'' 0x1000, function_symbol ''bar'' 0x2008]\<rparr>"

text \<open>
  A 64-bit ELF file linked high, as a kernel image is: \<^verbatim>\<open>.text\<close> at
  0xffffffff81000000, 0x1000 bytes, and a function symbol 0x10 bytes into it.
\<close>

definition high_object :: object_file where
  "high_object =
     \<lparr>obj_kind = ELF64LE, obj_arch = 1, obj_data = [],
      obj_sections = [mk_section ''.text'' 0xffffffff81000000 0x1000],
      obj_past_end = mk_section [] 0 0,
      obj_symbols = [function_symbol ''start_kernel'' 0xffffffff81000010]\<rparr>"

text \<open>
  An environment: no file exists by name, \<^verbatim>\<open>createBinary\<close> returns \<open>bin\<close>, the bytes
  of the input can be read, the decoder engine is valid or not, no text is an integer,
  and \<open>dis\<close> is what the disassembler returns.
\<close>

definition example_env :: "error_code + binary \<Rightarrow> bool \<Rightarrow> (addr \<Rightarrow> MachineFunction option) \<Rightarrow> env" where
  "example_env bin valid dis =
     \<lparr>fs_exists = (\<lambda>p. False), createBinary = (\<lambda>p. bin),
      MemoryBuffer_getFile = (\<lambda>p. Inr [0x68, 0x69, 0x0A]),
      Features_getString = (\<lambda>fs. []), Triple_setArch = (\<lambda>a t. t),
      Triple_normalize = (\<lambda>t. t), Triple_setArchName = (\<lambda>a t. t),
      MCDirector_isValid = (\<lambda>t f. valid), getAsInteger = (\<lambda>t. None), disassemble = dis,
      MCInstrInfo_getName = (\<lambda>opc. if opc = 1 then ''PUSH64r'' else ''RETQ''),
      dummy_past_end = mk_section [] 0 0, uninit_Address = 0, uninit_SectSize = 0\<rparr>"

definition example_options :: options where
  "example_options =
     \<lparr>argv0 = ''./fracture-autodis'', opt_TripleName = [], ArchName = [],
      InputFileName = ''-'', MAttrs = []\<rparr>"

definition missing_file_options :: options where
  "missing_file_options = example_options\<lparr>InputFileName := ''/no/such/file''\<rparr>"

text \<open>
  The function at 0x1000 as one block of two instructions, and as three blocks of which
  the last, where decoding failed, is empty.
\<close>

definition one_block_function :: MachineFunction where
  "one_block_function = \<lparr>mf_blocks = [[1, 2]], mf_sentinel = []\<rparr>"

definition two_instructions :: "addr \<Rightarrow> MachineFunction option" where
  "two_instructions a = (if a = 0x1000 then Some one_block_function else None)"

definition three_block_function :: MachineFunction where
  "three_block_function = \<lparr>mf_blocks = [[1], [2, 1], []], mf_sentinel = []\<rparr>"

definition three_blocks :: "addr \<Rightarrow> MachineFunction option" where
  "three_blocks a = (if a = 0x1000 then Some three_block_function else None)"

text \<open>
  Runs of the tool: on the example object file with a valid decoder engine, the same
  with an engine that fails to validate, and on input that \<^verbatim>\<open>createBinary\<close> does not
  recognise, with an engine that fails to validate and with one that is valid (as when a
  triple is given on the command line).
\<close>

definition census_env :: env where
  "census_env = example_env (Inr (Object (example_object ELF64LE))) True two_instructions"

definition no_decoder_env :: env where
  "no_decoder_env = example_env (Inr (Object (example_object ELF64LE))) False two_instructions"

definition text_file_env :: env where
  "text_file_env = example_env (Inl (other_error ''Invalid file type'')) False two_instructions"

definition raw_bytes_env :: env where
  "raw_bytes_env = example_env (Inl (other_error ''Invalid file type'')) True two_instructions"

text \<open>
  Decoders for the two symbols of the example object file: one that returns the function
  of three blocks for \<^verbatim>\<open>foo\<close>, and one that returns a function without blocks for
  \<^verbatim>\<open>foo\<close> and a function whose first block is empty for \<^verbatim>\<open>bar\<close>.
\<close>

definition three_block_env :: env where
  "three_block_env = example_env (Inr (Object (example_object ELF64LE))) True three_blocks"

definition hollow :: "addr \<Rightarrow> MachineFunction option" where
  "hollow a =
     (if a = 0x1000 then Some \<lparr>mf_blocks = [], mf_sentinel = []\<rparr>
      else if a = 0x2008 then Some \<lparr>mf_blocks = [[], [1]], mf_sentinel = []\<rparr>
      else None)"

definition hollow_env :: env where
  "hollow_env = example_env (Inr (Object (example_object ELF64LE))) True hollow"

text \<open>Input that is not recognised and cannot be read either.\<close>

definition unreadable_env :: env where
  "unreadable_env =
     text_file_env\<lparr>MemoryBuffer_getFile := (\<lambda>p. Inl (other_error ''Is a directory''))\<rparr>"


text \<open>The globals once an object file is loaded.\<close>

definition loaded :: "object_file \<Rightarrow> globals" where
  "loaded obj =
     \<lparr>ProgramName = ''fracture-autodis'', TempExecutable = Some obj,
      TripleName = ''unknown-unknown-unknown'',
      MCD = Some (''unknown-unknown-unknown'', []), DAS = Some (Some obj), io = []\<rparr>"

section \<open>Lemmas\<close>

subsection \<open>Unfolding the model on concrete inputs\<close>

lemmas model_defs =
  main_def initial_globals_def loadBinary_def initDisassembler_def runSymbolsCommand_def
  resolveSection_def getSectionByName_def getSectionByAddress_def contains_address_def
  section_end_def section_at_def dumpELFSymbols_def dumpCOFFSymbols_def census_symbol_def
  createDummyObjectFile_def error_def errs_def outs_def
  exit_status_def run_io_def returned_def

lemmas example_defs =
  census_env_def no_decoder_env_def text_file_env_def raw_bytes_env_def example_env_def
  example_options_def missing_file_options_def unreadable_env_def one_block_function_def
  three_block_env_def hollow_def hollow_env_def
  example_object_def high_object_def two_instructions_def three_blocks_def
  three_block_function_def
  function_symbol_def mk_section_def loaded_def

subsection \<open>What each function writes\<close>

lemma error_None: "error None g = (False, g)"
  by (simp add: error_def)

lemma extends_io_refl: "extends_io P g g"
  by (simp add: extends_io_def)

lemma extends_io_trans: "extends_io P g g' \<Longrightarrow> extends_io P g' g'' \<Longrightarrow> extends_io P g g''"
  by (auto simp: extends_io_def)

lemma extends_io_mono: "extends_io P g g' \<Longrightarrow> (\<And>e. P e \<Longrightarrow> Q e) \<Longrightarrow> extends_io Q g g'"
  by (auto simp: extends_io_def list_all_iff)

lemma extends_io_errs: "P (Errs s) \<Longrightarrow> extends_io P g (errs s g)"
  by (simp add: extends_io_def errs_def)

lemma extends_io_outs: "P (Outs s) \<Longrightarrow> extends_io P g (outs s g)"
  by (simp add: extends_io_def outs_def)

lemma extends_io_error: "extends_io is_diag g (snd (error ec g))"
  by (cases ec) (simp_all add: error_def extends_io_refl extends_io_errs is_diag_def)

lemma dumpELFSymbols_loop_io:
  "extends_io is_diag g (snd (dumpELFSymbols_loop Address SectSize Syms res g))"
proof (induction Syms arbitrary: res g)
  case Nil
  show ?case by (simp add: extends_io_refl)
next
  case (Cons si Syms)
  have skip: "extends_io is_diag g (snd (dumpELFSymbols_loop Address SectSize Syms res (snd (error ec g))))" for ec
    by (rule extends_io_trans [OF extends_io_error Cons.IH])
  show ?case
    by (simp add: error_None skip Cons.IH split: sum.split)
qed

declare emit_loop.simps [simp del]

lemma emit_loop_io:
  "extends_io (is_record E) g (fst (emit_loop E MF k BI II (g, d)))"
proof (induction E MF k BI II "(g, d)" arbitrary: g d rule: emit_loop.induct)
  case (1 E MF k BI II g derefs)
  have step: "extends_io (is_record E) g (outs (instruction_record E (hd II)) g)"
    by (rule extends_io_outs) (simp add: is_record_def)
  show ?case
  proof (cases "BI \<noteq> [] \<and> hd BI \<noteq> []")
    case False
    then show ?thesis by (subst emit_loop.simps) (auto simp: extends_io_refl)
  next
    case True
    show ?thesis
    proof (cases "tl II = []")
      case True
      from "1.hyps"(1) [OF \<open>BI \<noteq> [] \<and> hd BI \<noteq> []\<close> refl refl True refl]
      have "extends_io (is_record E) (outs (instruction_record E (hd II)) g)
              (fst (emit_loop E MF (Suc k) (tl BI) (case tl BI of [] \<Rightarrow> mf_sentinel MF | B # Bs \<Rightarrow> B)
                 (outs (instruction_record E (hd II)) g, derefs @ [k, Suc k, Suc k])))" .
      with step True \<open>BI \<noteq> [] \<and> hd BI \<noteq> []\<close> show ?thesis
        by (subst emit_loop.simps) (auto simp: Let_def intro: extends_io_trans)
    next
      case False
      from "1.hyps"(2) [OF \<open>BI \<noteq> [] \<and> hd BI \<noteq> []\<close> refl refl False]
      have "extends_io (is_record E) (outs (instruction_record E (hd II)) g)
              (fst (emit_loop E MF k BI (tl II) (outs (instruction_record E (hd II)) g, derefs @ [k])))" .
      with step False \<open>BI \<noteq> [] \<and> hd BI \<noteq> []\<close> show ?thesis
        by (subst emit_loop.simps) (auto simp: Let_def intro: extends_io_trans)
    qed
  qed
qed




lemma emit_loop_derefs_mono:
  "set d \<subseteq> set (snd (emit_loop E MF k BI II (g, d)))"
proof (induction E MF k BI II "(g, d)" arbitrary: g d rule: emit_loop.induct)
  case (1 E MF k BI II g derefs)
  show ?case
    using "1.hyps"
    by (subst emit_loop.simps) (auto simp: Let_def)
qed

lemma emit_loop_reads_past_end:
  "B \<noteq> [] \<Longrightarrow> II \<noteq> [] \<Longrightarrow> list_all (\<lambda>b. b \<noteq> []) Bs \<Longrightarrow>
   Suc (k + length Bs) \<in> set (snd (emit_loop E MF k (B # Bs) II (g, d)))"
proof (induction E MF k "B # Bs" II "(g, d)" arbitrary: B Bs g d rule: emit_loop.induct)
  case (1 E MF k II g derefs)
  show ?case
  proof (cases "tl II = []")
    case False
    then show ?thesis
      using "1.hyps"(2) "1.prems"
      by (subst emit_loop.simps) (simp add: Let_def)
  next
    case True
    show ?thesis
    proof (cases Bs)
      case Nil
      then show ?thesis
        using True "1.prems" emit_loop_derefs_mono [of "derefs @ [k, Suc k, Suc k]" E MF "Suc k" "[]" "mf_sentinel MF" "outs (instruction_record E (hd II)) g"]
        by (subst emit_loop.simps) (simp add: Let_def)
    next
      case (Cons B' Bs')
      then show ?thesis
        using True "1.hyps"(1) "1.prems"
        by (subst emit_loop.simps) (simp add: Let_def)
    qed
  qed
qed

lemma census_symbol_io:
  "extends_io (\<lambda>e. is_diag e \<or> is_record E e) g (census_symbol E s g)"
proof -
  have d: "extends_io (\<lambda>e. is_diag e \<or> is_record E e) g (snd (error ec g))" for ec
    by (rule extends_io_mono [OF extends_io_error]) simp
  have r: "extends_io (\<lambda>e. is_diag e \<or> is_record E e) g (fst (emit_loop E MF k BI II (g, dd)))" for MF k BI II dd
    by (rule extends_io_mono [OF emit_loop_io]) simp
  show ?thesis
    unfolding census_symbol_def
    by (simp add: d r extends_io_refl Let_def split: sum.split option.split)
qed

lemma census_loop_io:
  "extends_io (\<lambda>e. is_diag e \<or> is_record E e) g (census_loop E Symbols g)"
proof (induction Symbols arbitrary: g)
  case Nil
  show ?case by (simp add: extends_io_refl)
next
  case (Cons s Symbols)
  show ?case
    using extends_io_trans [OF census_symbol_io Cons.IH] by simp
qed



lemma is_diag_simps [simp]:
  "is_diag (Errs s) \<longleftrightarrow> CHR '' '' \<in> set s"
  "\<not> is_diag (Outs s)"
  by (simp_all add: is_diag_def)

lemma extends_io_errs': "extends_io P g g1 \<Longrightarrow> P (Errs s) \<Longrightarrow> extends_io P g (errs s g1)"
  by (auto simp: extends_io_def errs_def)

lemma extends_io_error': "extends_io is_diag g g1 \<Longrightarrow> extends_io is_diag g (snd (error ec g1))"
  by (rule extends_io_trans [OF _ extends_io_error])

lemma extends_io_update [simp]:
  "extends_io P g (g1\<lparr>TempExecutable := t\<rparr>) = extends_io P g g1"
  "extends_io P g (g1\<lparr>TripleName := n\<rparr>) = extends_io P g g1"
  "extends_io P g (g1\<lparr>MCD := m\<rparr>) = extends_io P g g1"
  "extends_io P g (g1\<lparr>DAS := d\<rparr>) = extends_io P g g1"
  by (simp_all add: extends_io_def)

lemma dumpELFSymbols_io:
  "extends_io is_diag g g1 \<Longrightarrow> extends_io is_diag g (snd (dumpELFSymbols E elf Address g1))"
  unfolding dumpELFSymbols_def Let_def
  by (auto split: sum.split
           intro: extends_io_trans [OF _ dumpELFSymbols_loop_io]
                  extends_io_trans [OF extends_io_error' dumpELFSymbols_loop_io])

lemma runSymbolsCommand_io:
  assumes "runSymbolsCommand E [c, n] g = Ret r"
  shows "extends_io is_diag g (snd r)"
  using assms
  unfolding runSymbolsCommand_def Let_def
  by (auto split: option.splits if_splits sum.splits file_kind.splits
           simp: dumpCOFFSymbols_def
           intro!: extends_io_refl extends_io_errs' extends_io_error' dumpELFSymbols_io)

lemma initDisassembler_io:
  assumes "initDisassembler E opts g1 = Ret r" and "extends_io is_diag g g1"
  shows "extends_io is_diag g (snd r)"
  using assms
  unfolding initDisassembler_def Let_def
  by (auto split: option.splits if_splits intro!: extends_io_errs')

lemma loadBinary_io:
  assumes "loadBinary E opts F g = Ret r"
  shows "extends_io is_diag g (snd r)"
  using assms
  unfolding loadBinary_def Let_def
  by (auto split: if_splits sum.splits binary.splits
           elim!: initDisassembler_io
           intro!: extends_io_refl extends_io_errs')


lemma stdout_of_append [simp]: "stdout_of (a @ b) = stdout_of a @ stdout_of b"
  by (induction a rule: stdout_of.induct) simp_all

lemma stderr_of_append [simp]: "stderr_of (a @ b) = stderr_of a @ stderr_of b"
  by (induction a rule: stderr_of.induct) simp_all

lemma telemetry_no_blank: "CHR '' '' \<notin> set telemetry"
  by (simp add: telemetry_def nl_def)

lemma telemetry_not_record: "telemetry \<notin> range (instruction_record E)"
proof
  assume "telemetry \<in> range (instruction_record E)"
  then obtain opc where "telemetry = instruction_record E opc" by blast
  then have "set telemetry = set (instruction_record E opc)" by simp
  moreover have "CHR 0x09 \<in> set (instruction_record E opc)"
    by (simp add: instruction_record_def)
  moreover have "CHR 0x09 \<notin> set telemetry"
    by (simp add: telemetry_def nl_def)
  ultimately show False by simp
qed

lemma diag_stdout: "list_all is_diag es \<Longrightarrow> stdout_of es = []"
  by (induction es rule: stdout_of.induct) simp_all

lemma mixed_stdout:
  "list_all (\<lambda>e. is_diag e \<or> is_record E e) es \<Longrightarrow> set (stdout_of es) \<subseteq> range (instruction_record E)"
  by (induction es rule: stdout_of.induct) (auto simp: is_record_def)

lemma mixed_stderr:
  "list_all (\<lambda>e. is_diag e \<or> is_record E e) es \<Longrightarrow> telemetry \<notin> set (stderr_of es)"
  using telemetry_no_blank
  by (induction es rule: stderr_of.induct) (auto simp: is_record_def)

lemma diag_stderr: "list_all is_diag es \<Longrightarrow> telemetry \<notin> set (stderr_of es)"
  using telemetry_no_blank
  by (induction es rule: stderr_of.induct) auto

lemma initial_io [simp]: "io (initial_globals opts) = []"
  by (simp add: initial_globals_def)

lemma extends_io_from_initial:
  "extends_io P (initial_globals opts) g \<Longrightarrow> list_all P (io g)"
  by (auto simp: extends_io_def)

text \<open>The two ways in which \<^verbatim>\<open>main\<close> returns.\<close>

lemma main_failed:
  assumes "2 \<le> length (argv0 opts)"
    and "loadBinary E opts ''-'' (initial_globals opts) = Ret (Some e, g0)"
  shows "main E opts =
           Ret (- 1, errs (ProgramName g0 @ '': Could not open stdin file!'' @ quote
                           @ InputFileName opts @ quote @ ''. '' @ message e @ ''.'' @ nl) g0)"
  using assms by (simp add: main_def)

lemma main_loaded:
  assumes "2 \<le> length (argv0 opts)"
    and "loadBinary E opts ''-'' (initial_globals opts) = Ret (None, g0)"
    and "runSymbolsCommand E [''sym'', ''.text''] g0 = Ret (Symbols, g1)"
  shows "main E opts = Ret (0, errs telemetry (census_loop E Symbols g1))"
  using assms by (simp add: main_def)

lemma main_Ret_cases:
  assumes "main E opts = Ret (code, g)"
  obtains (failed) e g0 where
      "loadBinary E opts ''-'' (initial_globals opts) = Ret (Some e, g0)"
      "code = - 1"
      "g = errs (ProgramName g0 @ '': Could not open stdin file!'' @ quote
                 @ InputFileName opts @ quote @ ''. '' @ message e @ ''.'' @ nl) g0"
  | (loaded) g0 Symbols g1 where
      "loadBinary E opts ''-'' (initial_globals opts) = Ret (None, g0)"
      "runSymbolsCommand E [''sym'', ''.text''] g0 = Ret (Symbols, g1)"
      "code = 0"
      "g = errs telemetry (census_loop E Symbols g1)"
  using assms
  unfolding main_def
  by (auto split: if_splits exec.splits option.splits prod.splits)

lemma failed_run_io:
  assumes "loadBinary E opts ''-'' (initial_globals opts) = Ret (r, g0)"
  shows "list_all is_diag (io (errs (ProgramName g0 @ '': Could not open stdin file!'' @ t) g0))"
proof -
  have "list_all is_diag (io g0)"
    using loadBinary_io [OF assms] by (simp add: extends_io_from_initial)
  then show ?thesis by (simp add: errs_def)
qed

lemma loaded_run_io:
  assumes "loadBinary E opts ''-'' (initial_globals opts) = Ret (r, g0)"
    and "runSymbolsCommand E [''sym'', ''.text''] g0 = Ret (Symbols, g1)"
  shows "list_all (\<lambda>e. is_diag e \<or> is_record E e) (io (census_loop E Symbols g1))"
proof -
  have "extends_io is_diag (initial_globals opts) g0"
    using loadBinary_io [OF assms(1)] by simp
  moreover have "extends_io is_diag g0 g1"
    using runSymbolsCommand_io [OF assms(2)] by simp
  ultimately have "extends_io is_diag (initial_globals opts) g1"
    by (rule extends_io_trans)
  then have "extends_io (\<lambda>e. is_diag e \<or> is_record E e) (initial_globals opts) g1"
    by (rule extends_io_mono) simp
  then show ?thesis
    using extends_io_trans [OF _ census_loop_io] extends_io_from_initial by blast
qed

subsection \<open>The example run\<close>

lemma census_run_status: "exit_status (main census_env example_options) = Some 0"
  by (simp add: model_defs example_defs Let_def)

lemma census_run_io:
  "run_io (main census_env example_options) =
     [Outs (instruction_record census_env 1), Outs (instruction_record census_env 2), Errs telemetry]"
  by (simp add: model_defs example_defs Let_def emit_loop.simps instruction_record_def)

subsection \<open>When the scanner returns, and what the loader leaves\<close>

lemma runSymbolsCommand_returns:
  assumes "DAS g = Some (Some exe)"
  shows "\<exists>Symbols g1. runSymbolsCommand E [c, n] g = Ret (Symbols, g1)"
  using assms
  unfolding runSymbolsCommand_def Let_def
  by (auto split: sum.split file_kind.split intro: prod.exhaust simp: prod_eq_iff)

lemma initDisassembler_DAS:
  assumes "initDisassembler E opts g = Ret (r, g')"
  shows "DAS g' = Some (TempExecutable g) \<and> TempExecutable g' = TempExecutable g"
  using assms
  unfolding initDisassembler_def Let_def
  by (auto split: option.splits if_splits simp: errs_def)

lemma loadBinary_loaded:
  assumes "loadBinary E opts F g = Ret (None, g')"
  shows "DAS g' = Some (TempExecutable g') \<and>
         (createBinary E F \<noteq> Inr NonObject \<longrightarrow> TempExecutable g' \<noteq> None)"
  using assms
  unfolding loadBinary_def Let_def
  by (auto split: if_splits sum.splits binary.splits dest!: initDisassembler_DAS)

lemma initDisassembler_error:
  assumes "initDisassembler E opts g = Ret (Some e, g')"
  shows "e = errc_not_supported"
  using assms
  unfolding initDisassembler_def Let_def
  by (auto split: option.splits if_splits)

lemma loadBinary_stdin_error:
  assumes "loadBinary E opts ''-'' g = Ret (Some e, g')"
  shows "e = errc_not_supported \<or>
         (\<exists>err. createBinary E ''-'' = Inl err) \<and> MemoryBuffer_getFile E ''-'' = Inl e"
  using assms
  unfolding loadBinary_def Let_def
  by (auto split: if_splits sum.splits binary.splits dest!: initDisassembler_error)

subsection \<open>More example runs\<close>

lemma census_load_status:
  "map_option fst (returned (loadBinary census_env example_options ''-'' (initial_globals example_options))) = Some None"
  by (simp add: model_defs example_defs Let_def)

lemma no_decoder_load_status:
  "map_option fst (returned (loadBinary no_decoder_env example_options ''-'' (initial_globals example_options)))
     = Some (Some errc_not_supported)"
  by (simp add: model_defs example_defs Let_def)

lemma no_decoder_run_status: "exit_status (main no_decoder_env example_options) = Some (- 1)"
  by (simp add: model_defs example_defs Let_def)

lemma no_decoder_run_io:
  "run_io (main no_decoder_env example_options) =
     [Errs (''Warning: Unable to initialized LLVM MC API!'' @ nl),
      Errs (''fracture-autodis: Could not open stdin file!'' @ quote @ ''-'' @ quote
            @ ''. Operation not supported.'' @ nl)]"
  by (simp add: model_defs example_defs Let_def)

subsection \<open>The input file name\<close>

lemma initDisassembler_InputFileName:
  "initDisassembler E (opts\<lparr>InputFileName := F\<rparr>) = initDisassembler E opts"
  by (rule ext) (simp add: initDisassembler_def Let_def split: option.split)

lemma loadBinary_InputFileName:
  "loadBinary E (opts\<lparr>InputFileName := F\<rparr>) = loadBinary E opts"
  by (rule ext)+
     (simp add: loadBinary_def initDisassembler_InputFileName Let_def split: sum.split binary.split)

lemma initial_globals_InputFileName:
  "initial_globals (opts\<lparr>InputFileName := F\<rparr>) = initial_globals opts"
  by (simp add: initial_globals_def)

lemma stdout_of_errs: "stdout_of (io (errs m g)) = stdout_of (io g)"
  by (simp add: errs_def)

lemma main_InputFileName:
  "exit_status (main E (opts\<lparr>InputFileName := F\<rparr>)) = exit_status (main E opts) \<and>
   stdout_of (run_io (main E (opts\<lparr>InputFileName := F\<rparr>))) = stdout_of (run_io (main E opts))"
  unfolding main_def loadBinary_InputFileName initial_globals_InputFileName
  by (simp add: exit_status_def run_io_def stdout_of_errs split: exec.split option.split prod.split)

lemma missing_file_run_status: "exit_status (main census_env missing_file_options) = Some 0"
  by (simp add: model_defs example_defs Let_def)

lemma missing_file_run_io:
  "run_io (main census_env missing_file_options) =
     [Outs (instruction_record census_env 1), Outs (instruction_record census_env 2), Errs telemetry]"
  by (simp add: model_defs example_defs Let_def emit_loop.simps instruction_record_def)

lemma text_file_load_status:
  "map_option fst (returned (loadBinary text_file_env example_options ''-'' (initial_globals example_options)))
     = Some (Some errc_not_supported)"
  by (simp add: model_defs example_defs Let_def)

subsection \<open>The symbol scanner as a filter\<close>

lemma dumpELFSymbols_loop_filter:
  "fst (dumpELFSymbols_loop Address SectSize Syms res g) =
     res @ filter (retained Address SectSize) Syms"
  by (induction Syms arbitrary: res g) (simp_all add: error_None retained_def split: sum.split)

lemma dumpELFSymbols_filter:
  assumes "sec_size (section_at elf (getSectionByName elf ''.text'')) = Inr SectSize"
  shows "fst (dumpELFSymbols E elf Address g) = filter (retained Address SectSize) (obj_symbols elf)"
  using assms by (simp add: dumpELFSymbols_def dumpELFSymbols_loop_filter)

text \<open>
  Where the scanner agrees with the specification: a base that fits the 32 bits of the
  parameter, and a range that ends below the sentinel.
\<close>

lemma retained_agrees:
  assumes "unat base < 2 ^ 32" and "unat base + unat sz < 2 ^ 64 - 1"
  shows "retained (ucast base) sz s = spec_retained base sz s"
proof -
  have "unat (ucast (ucast base :: 32 word) :: addr) = unat base"
    using assms(1) by (simp add: unsigned_ucast_eq unsigned_take_bit_eq take_bit_nat_eq_self)
  then have trip: "(ucast (ucast base :: 32 word) :: addr) = base"
    by (simp add: word_unat_eq_iff)
  have "unat base + unat sz < 2 ^ LENGTH(64)"
    using assms(2) by simp
  then have sum: "unat (base + sz) = unat base + unat sz"
    by (rule unat_add_lem [THEN iffD1])
  have top: "unat UnknownAddressOrSize = 2 ^ 64 - 1"
    by (simp add: UnknownAddressOrSize_def unsigned_minus_1_eq_mask mask_eq_exp_minus_1)
  have "a \<le> base + sz \<Longrightarrow> a \<noteq> UnknownAddressOrSize" for a :: addr
    using assms(2) sum top by (auto simp: word_le_nat_alt)
  then show ?thesis
    unfolding retained_def spec_retained_def trip
    by (auto simp: word_le_nat_alt sum split: sum.splits)
qed

lemma dumpELFSymbols_loop_agrees:
  assumes "unat base < 2 ^ 32" and "unat base + unat sz < 2 ^ 64 - 1"
  shows "fst (dumpELFSymbols_loop (ucast base) sz Syms [] g) = spec_scanFunctions base sz Syms"
  by (simp add: dumpELFSymbols_loop_filter spec_scanFunctions_def retained_agrees [OF assms] cong: filter_cong)


lemma runSymbolsCommand_not_found:
  assumes "DAS g = Some (Some exe)" and "resolveSection E exe n = section_end exe"
  shows "runSymbolsCommand E [c, n] g = Ret ([], errs (''Could not find section!'' @ nl) g)"
  using assms by (simp add: runSymbolsCommand_def)

lemma runSymbolsCommand_ELF:
  assumes "DAS g = Some (Some exe)" and "resolveSection E exe n \<noteq> section_end exe"
    and "obj_kind exe \<in> {ELF32LE, ELF32BE, ELF64BE, ELF64LE}"
    and "sec_addr (section_at exe (getSectionByName exe ''.text'')) = Inr base"
    and "sec_size (section_at exe (getSectionByName exe ''.text'')) = Inr sz"
  shows "map_option fst (returned (runSymbolsCommand E [c, n] g)) =
           Some (filter (retained (ucast base) sz) (obj_symbols exe))"
proof -
  have scan: "fst (dumpELFSymbols E exe (ucast base) g1)
                = filter (retained (ucast base) sz) (obj_symbols exe)" for g1
    by (rule dumpELFSymbols_filter [OF assms(5)])
  from assms(3) consider "obj_kind exe = ELF32LE" | "obj_kind exe = ELF32BE"
    | "obj_kind exe = ELF64BE" | "obj_kind exe = ELF64LE"
    by auto
  then show ?thesis
    using assms(1,2,4)
    by cases (simp_all add: runSymbolsCommand_def returned_def Let_def scan)
qed

lemma runSymbolsCommand_COFF:
  assumes "DAS g = Some (Some exe)" and "resolveSection E exe n \<noteq> section_end exe"
    and "obj_kind exe = COFF"
    and "sec_addr (section_at exe (getSectionByName exe ''.text'')) = Inr base"
    and "sec_name (section_at exe (getSectionByName exe ''.text'')) = Inr nm"
  shows "runSymbolsCommand E [c, n] g = Ret ([], g)"
  using assms
  by (simp add: runSymbolsCommand_def Let_def dumpCOFFSymbols_def)

lemma resolveSection_by_name:
  "getSectionByName exe n \<noteq> section_end exe \<Longrightarrow> resolveSection E exe n \<noteq> section_end exe"
  by (auto simp: resolveSection_def Let_def)

lemma example_scan_data:
  "map_option fst (returned (runSymbolsCommand census_env [''sym'', ''.data''] (loaded (example_object ELF64LE))))
     = Some [function_symbol ''foo'' 0x1000]"
  by (simp add: model_defs example_defs Let_def)

lemma example_resolve_data:
  "resolveSection census_env (example_object ELF64LE) ''.data'' = 1"
  by (simp add: model_defs example_defs Let_def)

lemma example_resolve_bss:
  "resolveSection census_env (example_object ELF64LE) ''.bss'' = section_end (example_object ELF64LE)"
  by (simp add: model_defs example_defs Let_def)

subsection \<open>One symbol of the census\<close>


lemma census_symbol_skips:
  assumes "disassemble E SymAddr = None \<or>
           (\<exists>MF. disassemble E SymAddr = Some MF \<and> (mf_blocks MF = [] \<or> hd (mf_blocks MF) = []))"
    and "sym_addr Sym = Inr SymAddr" and "sym_name Sym = Inr SymName"
  shows "census_symbol E Sym g = g"
  using assms by (auto simp: census_symbol_def)

lemma census_loop_append:
  "census_loop E (Symbols @ Symbols') g = census_loop E Symbols' (census_loop E Symbols g)"
  by (induction Symbols arbitrary: g) simp_all

text \<open>Nothing before the census loop looks at what the disassembler returns.\<close>

lemma initDisassembler_disassemble:
  "initDisassembler (E\<lparr>disassemble := d\<rparr>) = initDisassembler E"
  by (rule ext)+ (simp add: initDisassembler_def Let_def split: option.split)

lemma loadBinary_disassemble:
  "loadBinary (E\<lparr>disassemble := d\<rparr>) = loadBinary E"
  by (rule ext)+
     (simp add: loadBinary_def initDisassembler_disassemble Let_def split: sum.split binary.split)

lemma runSymbolsCommand_disassemble:
  "runSymbolsCommand (E\<lparr>disassemble := d\<rparr>) = runSymbolsCommand E"
  by (rule ext)+
     (simp add: runSymbolsCommand_def resolveSection_def dumpELFSymbols_def Let_def
        split: option.split sum.split file_kind.split)

lemma exit_status_disassemble:
  "exit_status (main (E\<lparr>disassemble := d\<rparr>) opts) = exit_status (main E opts)"
  unfolding main_def loadBinary_disassemble runSymbolsCommand_disassemble
  by (simp add: exit_status_def split: exec.split option.split prod.split)

subsection \<open>Lookups by name, and functions of the disassembler's shape\<close>

lemma resolveSection_name_only:
  assumes "getAsInteger E n = None"
    and "uninit_Address E = 0 \<or> getSectionByAddress exe (uninit_Address E) = section_end exe"
  shows "resolveSection E exe n = getSectionByName exe n"
  using assms by (auto simp: resolveSection_def Let_def)

lemma runSymbolsCommand_ELF_in_range:
  assumes "DAS g = Some (Some exe)"
    and "getSectionByName exe n \<noteq> section_end exe"
    and "obj_kind exe \<in> {ELF32LE, ELF32BE, ELF64BE, ELF64LE}"
    and "sec_addr (section_at exe (getSectionByName exe ''.text'')) = Inr base"
    and "sec_size (section_at exe (getSectionByName exe ''.text'')) = Inr sz"
    and "unat base < 2 ^ 32" and "unat base + unat sz < 2 ^ 64 - 1"
  shows "map_option fst (returned (runSymbolsCommand E [c, n] g)) =
           Some (spec_scanFunctions base sz (obj_symbols exe))"
proof -
  have "filter (retained (ucast base) sz) (obj_symbols exe) = spec_scanFunctions base sz (obj_symbols exe)"
    by (simp add: spec_scanFunctions_def retained_agrees [OF assms(6,7)] cong: filter_cong)
  then show ?thesis
    using runSymbolsCommand_ELF [OF assms(1) resolveSection_by_name [OF assms(2)] assms(3,4,5)]
    by simp
qed


section \<open>The claims\<close>

subsection \<open>C1: where the telemetry record goes\<close>

text \<open>
  C1 has the telemetry record on the output stream, exactly once, after the instruction
  records. \<^verbatim>\<open>main\<close> writes it to \<^verbatim>\<open>errs()\<close>. What holds, for every run that
  returns: standard output holds instruction records and nothing else, so never the
  telemetry record; when the exit status is 0 the telemetry record is the last write of
  the run, on standard error, and no earlier write to standard error is equal to it;
  when the exit status is not 0 nothing is written to standard output and no telemetry
  record is written at all.
\<close>

theorem C1_telemetry_on_stderr:
  assumes "exit_status (main E opts) = Some code"
  shows "set (stdout_of (run_io (main E opts))) \<subseteq> range (instruction_record E) \<and>
         telemetry \<notin> set (stdout_of (run_io (main E opts))) \<and>
         (code = 0 \<longrightarrow>
            (\<exists>pre. run_io (main E opts) = pre @ [Errs telemetry] \<and>
                   telemetry \<notin> set (stderr_of pre))) \<and>
         (code \<noteq> 0 \<longrightarrow>
            stdout_of (run_io (main E opts)) = [] \<and>
            telemetry \<notin> set (stderr_of (run_io (main E opts))))"
proof -
  from assms obtain g where ret: "main E opts = Ret (code, g)"
    by (auto simp: exit_status_def split: exec.splits)
  have io: "run_io (main E opts) = io g"
    by (simp add: ret run_io_def)
  from ret show ?thesis
  proof (cases rule: main_Ret_cases)
    case (failed e g0)
    have "list_all is_diag (io g)"
      unfolding failed(3) by (rule failed_run_io [OF failed(1)])
    then show ?thesis
      using failed(2) by (simp add: io diag_stdout diag_stderr)
  next
    case (loaded g0 Symbols g1)
    let ?pre = "io (census_loop E Symbols g1)"
    have pre: "list_all (\<lambda>e. is_diag e \<or> is_record E e) ?pre"
      by (rule loaded_run_io [OF loaded(1) loaded(2)])
    have g: "io g = ?pre @ [Errs telemetry]"
      by (simp add: loaded(4) errs_def)
    have "set (stdout_of (io g)) \<subseteq> range (instruction_record E)"
      using mixed_stdout [OF pre] by (simp add: g)
    moreover have "telemetry \<notin> set (stdout_of (io g))"
      using mixed_stdout [OF pre] telemetry_not_record [of E] by (auto simp: g)
    moreover have "telemetry \<notin> set (stderr_of ?pre)"
      by (rule mixed_stderr [OF pre])
    ultimately show ?thesis
      using loaded(3) g by (simp add: io)
  qed
qed

text \<open>
  The run on the example object file: two instruction records on standard output, the
  telemetry record on standard error only.
\<close>

theorem C1_telemetry_not_on_stdout:
  "count_list (stdout_of (run_io (main census_env example_options))) telemetry = 0 \<and>
   stdout_of (run_io (main census_env example_options)) =
     [instruction_record census_env 1, instruction_record census_env 2] \<and>
   stderr_of (run_io (main census_env example_options)) = [telemetry]"
  by (simp add: census_run_io instruction_record_def telemetry_def nl_def)

theorem C1_telemetry_on_stderr_witness:
  "(exit_status (main census_env example_options) = Some 0 \<and>
    set (stdout_of (run_io (main census_env example_options))) \<subseteq> range (instruction_record census_env) \<and>
    telemetry \<notin> set (stdout_of (run_io (main census_env example_options))) \<and>
    (\<exists>pre. run_io (main census_env example_options) = pre @ [Errs telemetry] \<and>
           telemetry \<notin> set (stderr_of pre))) \<and>
   (exit_status (main no_decoder_env example_options) = Some (- 1) \<and>
    stdout_of (run_io (main no_decoder_env example_options)) = [] \<and>
    telemetry \<notin> set (stderr_of (run_io (main no_decoder_env example_options))))"
  using C1_telemetry_on_stderr [OF census_run_status] census_run_status
    C1_telemetry_on_stderr [OF no_decoder_run_status] no_decoder_run_status
  by simp

subsection \<open>C2: the exit status\<close>

text \<open>
  C2 has a non-zero exit status only when the input bytes cannot be read. \<^verbatim>\<open>main\<close>
  returns -1 on every error code of \<^verbatim>\<open>loadBinary\<close>, and \<^verbatim>\<open>loadBinary\<close> returns
  \<^verbatim>\<open>not_supported\<close> when the decoder engine does not validate. What holds, for a run
  whose \<^verbatim>\<open>argv[0]\<close> has its two leading characters and whose load returns: if the load
  returns an error code, the exit status is -1, nothing is written to standard output and
  no telemetry record is written, and the code is \<^verbatim>\<open>not_supported\<close> or the read
  error of input that \<^verbatim>\<open>createBinary\<close> did not recognise; if the load returns success
  and \<^verbatim>\<open>createBinary\<close> did not return a binary that is no object file, the exit status
  is 0, standard output holds instruction records only (zero or more), and exactly one
  telemetry record is written, to standard error.
\<close>

theorem C2_exit_status:
  assumes "2 \<le> length (argv0 opts)"
    and "map_option fst (returned (loadBinary E opts ''-'' (initial_globals opts))) = Some r"
  shows "(r \<noteq> None \<longrightarrow>
            exit_status (main E opts) = Some (- 1) \<and>
            stdout_of (run_io (main E opts)) = [] \<and>
            telemetry \<notin> set (stderr_of (run_io (main E opts))) \<and>
            (r = Some errc_not_supported \<or>
             (\<exists>err. createBinary E ''-'' = Inl err) \<and> MemoryBuffer_getFile E ''-'' = Inl (the r))) \<and>
         (r = None \<and> createBinary E ''-'' \<noteq> Inr NonObject \<longrightarrow>
            exit_status (main E opts) = Some 0 \<and>
            set (stdout_of (run_io (main E opts))) \<subseteq> range (instruction_record E) \<and>
            count_list (stderr_of (run_io (main E opts))) telemetry = 1)"
proof -
  from assms(2) obtain g0 where load: "loadBinary E opts ''-'' (initial_globals opts) = Ret (r, g0)"
    by (auto simp: returned_def split: exec.splits)
  show ?thesis
  proof (cases r)
    case (Some e)
    note m = main_failed [OF assms(1) load [unfolded Some]]
    have "list_all is_diag (run_io (main E opts))"
      unfolding m run_io_def using failed_run_io [OF load] by simp
    then have "stdout_of (run_io (main E opts)) = []"
      and "telemetry \<notin> set (stderr_of (run_io (main E opts)))"
      by (simp_all add: diag_stdout diag_stderr)
    moreover have "exit_status (main E opts) = Some (- 1)"
      by (simp add: m exit_status_def)
    moreover have "e = errc_not_supported \<or>
        (\<exists>err. createBinary E ''-'' = Inl err) \<and> MemoryBuffer_getFile E ''-'' = Inl e"
      by (rule loadBinary_stdin_error [OF load [unfolded Some]])
    ultimately show ?thesis using Some by simp
  next
    case None
    show ?thesis
    proof (cases "createBinary E ''-'' = Inr NonObject")
      case True
      with None show ?thesis by simp
    next
      case False
      with loadBinary_loaded [OF load [unfolded None]]
      obtain exe where "DAS g0 = Some (Some exe)" by auto
      from runSymbolsCommand_returns [OF this]
      obtain Symbols g1 where scan: "runSymbolsCommand E [''sym'', ''.text''] g0 = Ret (Symbols, g1)"
        by blast
      note m = main_loaded [OF assms(1) load [unfolded None] scan]
      let ?pre = "io (census_loop E Symbols g1)"
      have pre: "list_all (\<lambda>e. is_diag e \<or> is_record E e) ?pre"
        by (rule loaded_run_io [OF load scan])
      have io: "run_io (main E opts) = ?pre @ [Errs telemetry]"
        by (simp add: m run_io_def errs_def)
      have "count_list (stderr_of ?pre) telemetry = 0"
        using mixed_stderr [OF pre] by (simp add: count_list_0_iff)
      then have "count_list (stderr_of (run_io (main E opts))) telemetry = 1"
        by (simp add: io)
      moreover have "set (stdout_of (run_io (main E opts))) \<subseteq> range (instruction_record E)"
        using mixed_stdout [OF pre] by (simp add: io)
      moreover have "exit_status (main E opts) = Some 0"
        by (simp add: m exit_status_def)
      ultimately show ?thesis using None by simp
    qed
  qed
qed


text \<open>
  A readable object file and a decoder engine that does not validate: the exit status is
  -1 and there is no telemetry record.
\<close>

theorem C2_readable_input_fails:
  "createBinary no_decoder_env ''-'' = Inr (Object (example_object ELF64LE)) \<and>
   MemoryBuffer_getFile no_decoder_env ''-'' = Inr [0x68, 0x69, 0x0A] \<and>
   exit_status (main no_decoder_env example_options) = Some (- 1) \<and>
   count_list (stderr_of (run_io (main no_decoder_env example_options))) telemetry = 0"
  by (simp add: no_decoder_run_status no_decoder_run_io)
     (simp add: example_defs telemetry_def nl_def quote_def)

theorem C2_exit_status_witness:
  "(2 \<le> length (argv0 example_options) \<and>
    createBinary census_env ''-'' \<noteq> Inr NonObject \<and>
    exit_status (main census_env example_options) = Some 0 \<and>
    set (stdout_of (run_io (main census_env example_options))) \<subseteq> range (instruction_record census_env) \<and>
    count_list (stderr_of (run_io (main census_env example_options))) telemetry = 1) \<and>
   (exit_status (main no_decoder_env example_options) = Some (- 1) \<and>
    stdout_of (run_io (main no_decoder_env example_options)) = [] \<and>
    telemetry \<notin> set (stderr_of (run_io (main no_decoder_env example_options))))"
proof -
  have len: "2 \<le> length (argv0 example_options)"
    by (simp add: example_defs)
  have obj: "createBinary census_env ''-'' \<noteq> Inr NonObject"
    by (simp add: example_defs)
  show ?thesis
    using C2_exit_status [OF len census_load_status] C2_exit_status [OF len no_decoder_load_status]
      len obj
    by simp
qed

subsection \<open>C3: a path that names no file\<close>

text \<open>
  C3 has the run exit with non-zero status when the supplied path names no file.
  \<^verbatim>\<open>main\<close> never hands the supplied path to \<^verbatim>\<open>loadBinary\<close>: it loads \<^verbatim>\<open>"-"\<close>,
  standard input. What holds: \<^verbatim>\<open>loadBinary\<close>, given a name other than \<^verbatim>\<open>"-"\<close> that
  names no existing file, returns \<^verbatim>\<open>no_such_file_or_directory\<close>, writes one message to
  standard error and changes nothing else; the exit status and the standard output of a
  run do not depend on the input file name; and a run whose load (of standard input)
  returns an error code exits with status -1 and writes nothing to standard output.
\<close>

theorem C3_missing_path:
  "(F \<noteq> ''-'' \<and> \<not> fs_exists E F \<longrightarrow>
      loadBinary E opts F g =
        Ret (Some errc_no_such_file_or_directory,
             errs (ProgramName g @ '': No such file or directory: '' @ quote @ F @ quote
                   @ ''.'' @ nl) g)) \<and>
   (exit_status (main E (opts\<lparr>InputFileName := F\<rparr>)) = exit_status (main E opts) \<and>
    stdout_of (run_io (main E (opts\<lparr>InputFileName := F\<rparr>))) = stdout_of (run_io (main E opts))) \<and>
   (2 \<le> length (argv0 opts) \<and>
    map_option fst (returned (loadBinary E opts ''-'' (initial_globals opts))) = Some (Some e) \<longrightarrow>
      exit_status (main E opts) = Some (- 1) \<and> stdout_of (run_io (main E opts)) = [])"
proof (intro conjI impI)
  assume "F \<noteq> ''-'' \<and> \<not> fs_exists E F"
  then show "loadBinary E opts F g =
        Ret (Some errc_no_such_file_or_directory,
             errs (ProgramName g @ '': No such file or directory: '' @ quote @ F @ quote
                   @ ''.'' @ nl) g)"
    by (simp add: loadBinary_def)
next
  show "exit_status (main E (opts\<lparr>InputFileName := F\<rparr>)) = exit_status (main E opts)"
    and "stdout_of (run_io (main E (opts\<lparr>InputFileName := F\<rparr>))) = stdout_of (run_io (main E opts))"
    using main_InputFileName [where E = E and opts = opts and F = F] by simp_all
next
  assume a: "2 \<le> length (argv0 opts) \<and>
    map_option fst (returned (loadBinary E opts ''-'' (initial_globals opts))) = Some (Some e)"
  then obtain g0 where load: "loadBinary E opts ''-'' (initial_globals opts) = Ret (Some e, g0)"
    by (auto simp: returned_def split: exec.splits)
  from a have len: "2 \<le> length (argv0 opts)" by simp
  note m = main_failed [OF len load]
  show "exit_status (main E opts) = Some (- 1)"
    by (simp add: m exit_status_def)
  have "list_all is_diag (run_io (main E opts))"
    unfolding m run_io_def using failed_run_io [OF load] by simp
  then show "stdout_of (run_io (main E opts)) = []"
    by (rule diag_stdout)
qed

text \<open>
  A run that is given the name of a file that does not exist, with an object file on
  standard input: exit status 0 and two instruction records.
\<close>

theorem C3_missing_path_ignored:
  "InputFileName missing_file_options \<noteq> ''-'' \<and>
   \<not> fs_exists census_env (InputFileName missing_file_options) \<and>
   exit_status (main census_env missing_file_options) = Some 0 \<and>
   stdout_of (run_io (main census_env missing_file_options)) =
     [instruction_record census_env 1, instruction_record census_env 2]"
  by (simp add: missing_file_run_status missing_file_run_io) (simp add: example_defs)

theorem C3_missing_path_witness:
  "''/no/such/file'' \<noteq> ''-'' \<and> \<not> fs_exists no_decoder_env ''/no/such/file'' \<and>
   loadBinary no_decoder_env example_options ''/no/such/file'' (initial_globals example_options) =
     Ret (Some errc_no_such_file_or_directory,
          errs (ProgramName (initial_globals example_options) @ '': No such file or directory: ''
                @ quote @ ''/no/such/file'' @ quote @ ''.'' @ nl) (initial_globals example_options)) \<and>
   2 \<le> length (argv0 example_options) \<and>
   exit_status (main no_decoder_env example_options) = Some (- 1) \<and>
   stdout_of (run_io (main no_decoder_env example_options)) = []"
proof -
  have a: "''/no/such/file'' \<noteq> ''-'' \<and> \<not> fs_exists no_decoder_env ''/no/such/file''"
    by (simp add: example_defs)
  have b: "2 \<le> length (argv0 example_options)"
    by (simp add: example_defs)
  show ?thesis
    using C3_missing_path [where F = "''/no/such/file''" and E = no_decoder_env
        and opts = example_options and g = "initial_globals example_options"
        and e = errc_not_supported]
      a b no_decoder_load_status
    by simp
qed

subsection \<open>C4: the symbols the scanner keeps\<close>

text \<open>
  C4 has the scanner keep exactly the function symbols with a non-zero, known address
  between the base of the section and its base plus its size. \<^verbatim>\<open>dumpELFSymbols\<close> takes
  the base as \<^verbatim>\<open>unsigned Address\<close>, 32 bits, where \<^verbatim>\<open>dumpCOFFSymbols\<close> takes
  \<^verbatim>\<open>uint64_t Address\<close>, so the base of a section at or above 4 GiB is cut to its low
  32 bits before the comparison. Here the code is evaluated on the 64-bit file whose
  \<^verbatim>\<open>.text\<close> is at 0xffffffff81000000: the function symbol 0x10 bytes into the section
  is kept by the filter of the specification and is missing from the result of the code.
  (\<open>retained_agrees\<close> above is the other side: with a base below 4 GiB and a range that
  ends below the sentinel the two filters are the same.)
\<close>

theorem C4_high_section_loses_symbols:
  "map_option fst (returned (runSymbolsCommand census_env [''sym'', ''.text''] (loaded high_object)))
     = Some [] \<and>
   sec_addr (section_at high_object (getSectionByName high_object ''.text'')) = Inr 0xffffffff81000000 \<and>
   sec_size (section_at high_object (getSectionByName high_object ''.text'')) = Inr 0x1000 \<and>
   spec_scanFunctions 0xffffffff81000000 0x1000 (obj_symbols high_object)
     = [function_symbol ''start_kernel'' 0xffffffff81000010]"
  by (simp add: model_defs example_defs Let_def spec_scanFunctions_def spec_retained_def
        UnknownAddressOrSize_def)

subsection \<open>C5: the section whose range is scanned\<close>

text \<open>
  C5 has the symbols returned lie in the range of the section that the argument
  resolves to. \<^verbatim>\<open>runSymbolsCommand\<close> needs the argument to resolve, and then assigns
  \<^verbatim>\<open>Section = DAS->getSectionByName(".text")\<close>; \<^verbatim>\<open>dumpELFSymbols\<close> takes the size
  from \<^verbatim>\<open>.text\<close> again. What holds, with an executable loaded. If the argument is no
  integer, is the name of no section, and the lookup by address finds nothing (the
  address is 0 or lies in no section), the result is empty and "Could not find section!"
  is written to standard error. If the argument is the exact name of a section, whichever,
  and the file is an ELF file with a section named \<^verbatim>\<open>.text\<close> whose base fits 32 bits
  and whose base plus size is below the unknown-address sentinel, the symbols returned are
  exactly the entries of the symbol table, in its order, of kind function, with an address
  that is not 0, not the sentinel, and between the base of \<^verbatim>\<open>.text\<close> and its base
  plus its size, both included.
\<close>

theorem C5_scan_is_of_text:
  assumes "DAS g = Some (Some exe)"
  shows "(getAsInteger E n = None \<and> getSectionByName exe n = section_end exe \<and>
          (uninit_Address E = 0 \<or> getSectionByAddress exe (uninit_Address E) = section_end exe) \<longrightarrow>
            runSymbolsCommand E [c, n] g = Ret ([], errs (''Could not find section!'' @ nl) g)) \<and>
         (getSectionByName exe n \<noteq> section_end exe \<and>
          obj_kind exe \<in> {ELF32LE, ELF32BE, ELF64BE, ELF64LE} \<and>
          getSectionByName exe ''.text'' \<noteq> section_end exe \<and>
          sec_addr (section_at exe (getSectionByName exe ''.text'')) = Inr base \<and>
          sec_size (section_at exe (getSectionByName exe ''.text'')) = Inr sz \<and>
          unat base < 2 ^ 32 \<and> unat base + unat sz < 2 ^ 64 - 1 \<longrightarrow>
            map_option fst (returned (runSymbolsCommand E [c, n] g)) =
              Some (spec_scanFunctions base sz (obj_symbols exe)))"
proof (intro conjI impI)
  assume a: "getAsInteger E n = None \<and> getSectionByName exe n = section_end exe \<and>
          (uninit_Address E = 0 \<or> getSectionByAddress exe (uninit_Address E) = section_end exe)"
  then have "resolveSection E exe n = section_end exe"
    using resolveSection_name_only [of E n exe] by simp
  then show "runSymbolsCommand E [c, n] g = Ret ([], errs (''Could not find section!'' @ nl) g)"
    by (rule runSymbolsCommand_not_found [OF assms])
next
  assume "getSectionByName exe n \<noteq> section_end exe \<and>
          obj_kind exe \<in> {ELF32LE, ELF32BE, ELF64BE, ELF64LE} \<and>
          getSectionByName exe ''.text'' \<noteq> section_end exe \<and>
          sec_addr (section_at exe (getSectionByName exe ''.text'')) = Inr base \<and>
          sec_size (section_at exe (getSectionByName exe ''.text'')) = Inr sz \<and>
          unat base < 2 ^ 32 \<and> unat base + unat sz < 2 ^ 64 - 1"
  then show "map_option fst (returned (runSymbolsCommand E [c, n] g)) =
              Some (spec_scanFunctions base sz (obj_symbols exe))"
    using runSymbolsCommand_ELF_in_range [OF assms, of n base sz E c] by simp
qed

text \<open>
  The argument \<^verbatim>\<open>.data\<close> resolves to the second section, at 0x2000. The symbol in its
  range is \<^verbatim>\<open>bar\<close>; the symbol returned is \<^verbatim>\<open>foo\<close>, at 0x1000 in \<^verbatim>\<open>.text\<close>.
\<close>

theorem C5_data_scan_returns_text_symbols:
  "resolveSection census_env (example_object ELF64LE) ''.data'' = 1 \<and>
   section_at (example_object ELF64LE) 1 = mk_section ''.data'' 0x2000 0x100 \<and>
   spec_scanFunctions 0x2000 0x100 (obj_symbols (example_object ELF64LE))
     = [function_symbol ''bar'' 0x2008] \<and>
   map_option fst (returned (runSymbolsCommand census_env [''sym'', ''.data''] (loaded (example_object ELF64LE))))
     = Some [function_symbol ''foo'' 0x1000]"
  by (simp add: example_scan_data example_resolve_data)
     (simp add: example_defs section_at_def spec_scanFunctions_def spec_retained_def
        UnknownAddressOrSize_def)

theorem C5_scan_is_of_text_witness:
  "DAS (loaded (example_object ELF64LE)) = Some (Some (example_object ELF64LE)) \<and>
   (getAsInteger census_env ''.bss'' = None \<and>
    getSectionByName (example_object ELF64LE) ''.bss'' = section_end (example_object ELF64LE) \<and>
    uninit_Address census_env = 0 \<and>
    runSymbolsCommand census_env [''sym'', ''.bss''] (loaded (example_object ELF64LE)) =
      Ret ([], errs (''Could not find section!'' @ nl) (loaded (example_object ELF64LE)))) \<and>
   (getSectionByName (example_object ELF64LE) ''.data'' \<noteq> section_end (example_object ELF64LE) \<and>
    obj_kind (example_object ELF64LE) \<in> {ELF32LE, ELF32BE, ELF64BE, ELF64LE} \<and>
    getSectionByName (example_object ELF64LE) ''.text'' \<noteq> section_end (example_object ELF64LE) \<and>
    sec_addr (section_at (example_object ELF64LE) (getSectionByName (example_object ELF64LE) ''.text''))
      = Inr 0x1000 \<and>
    sec_size (section_at (example_object ELF64LE) (getSectionByName (example_object ELF64LE) ''.text''))
      = Inr 0x100 \<and>
    unat (0x1000 :: addr) < 2 ^ 32 \<and> unat (0x1000 :: addr) + unat (0x100 :: addr) < 2 ^ 64 - 1 \<and>
    spec_scanFunctions 0x1000 0x100 (obj_symbols (example_object ELF64LE))
      = [function_symbol ''foo'' 0x1000] \<and>
    map_option fst (returned (runSymbolsCommand census_env [''sym'', ''.data''] (loaded (example_object ELF64LE))))
      = Some [function_symbol ''foo'' 0x1000])"
proof -
  have das: "DAS (loaded (example_object ELF64LE)) = Some (Some (example_object ELF64LE))"
    by (simp add: loaded_def)
  have bss:
    "getAsInteger census_env ''.bss'' = None"
    "getSectionByName (example_object ELF64LE) ''.bss'' = section_end (example_object ELF64LE)"
    "uninit_Address census_env = 0"
    by (simp_all add: example_defs getSectionByName_def section_end_def)
  have data:
    "getSectionByName (example_object ELF64LE) ''.data'' \<noteq> section_end (example_object ELF64LE)"
    "obj_kind (example_object ELF64LE) \<in> {ELF32LE, ELF32BE, ELF64BE, ELF64LE}"
    "getSectionByName (example_object ELF64LE) ''.text'' \<noteq> section_end (example_object ELF64LE)"
    "sec_addr (section_at (example_object ELF64LE) (getSectionByName (example_object ELF64LE) ''.text''))
      = Inr 0x1000"
    "sec_size (section_at (example_object ELF64LE) (getSectionByName (example_object ELF64LE) ''.text''))
      = Inr 0x100"
    by (simp_all add: example_defs getSectionByName_def section_end_def section_at_def)
  have range: "unat (0x1000 :: addr) < 2 ^ 32"
    "unat (0x1000 :: addr) + unat (0x100 :: addr) < 2 ^ 64 - 1"
    by simp_all
  have scan: "spec_scanFunctions 0x1000 0x100 (obj_symbols (example_object ELF64LE))
      = [function_symbol ''foo'' 0x1000]"
    by (simp add: example_defs spec_scanFunctions_def spec_retained_def UnknownAddressOrSize_def)
  have not_found:
    "runSymbolsCommand census_env [''sym'', ''.bss''] (loaded (example_object ELF64LE)) =
       Ret ([], errs (''Could not find section!'' @ nl) (loaded (example_object ELF64LE)))"
    using C5_scan_is_of_text [OF das, where n = "''.bss''" and E = census_env and c = "''sym''"]
      bss
    by blast
  have "map_option fst (returned (runSymbolsCommand census_env [''sym'', ''.data''] (loaded (example_object ELF64LE))))
      = Some (spec_scanFunctions 0x1000 0x100 (obj_symbols (example_object ELF64LE)))"
    using C5_scan_is_of_text [OF das, where n = "''.data''" and E = census_env and c = "''sym''"
        and base = "0x1000" and sz = "0x100"]
      data range
    by blast
  then have found:
    "map_option fst (returned (runSymbolsCommand census_env [''sym'', ''.data''] (loaded (example_object ELF64LE))))
      = Some [function_symbol ''foo'' 0x1000]"
    unfolding scan .
  show ?thesis
    by (intro conjI) (fact das bss data range scan not_found found)+
qed

subsection \<open>C6: a COFF file\<close>

text \<open>
  C6 has the scan of a COFF file report that the format is unsupported rather than return
  an empty set in silence. \<^verbatim>\<open>dumpCOFFSymbols\<close> is "TODO: fix this" and
  \<^verbatim>\<open>return res\<close>, and \<^verbatim>\<open>runSymbolsCommand\<close> returns that vector with no message,
  where its last branch writes "Unsupported section type." and \<^verbatim>\<open>nameLookupAddr\<close>
  writes "COFF is Unsupported section type." for a COFF file. Here the code is evaluated
  on three files with the same two sections: the COFF file with two function symbols
  gives the empty list and writes nothing, as the ELF file without symbols does; the
  file of another class gives the empty list and the message.
\<close>

theorem C6_COFF_scan_is_silent:
  "map_option (\<lambda>(Symbols, g). (Symbols, io g))
     (returned (runSymbolsCommand census_env [''sym'', ''.text''] (loaded (example_object COFF))))
     = Some ([], []) \<and>
   obj_symbols (example_object COFF) = [function_symbol ''foo'' 0x1000, function_symbol ''bar'' 0x2008] \<and>
   map_option (\<lambda>(Symbols, g). (Symbols, io g))
     (returned (runSymbolsCommand census_env [''sym'', ''.text'']
        (loaded ((example_object ELF64LE)\<lparr>obj_symbols := []\<rparr>))))
     = Some ([], []) \<and>
   map_option (\<lambda>(Symbols, g). (Symbols, io g))
     (returned (runSymbolsCommand census_env [''sym'', ''.text''] (loaded (example_object OtherObject))))
     = Some ([], [Errs (''Unsupported section type.'' @ nl)])"
  by (simp add: model_defs example_defs Let_def)

subsection \<open>C7: input of an unrecognised format\<close>

text \<open>
  C7 has the load fail only when the bytes cannot be read. \<^verbatim>\<open>loadBinary\<close> prints
  "Warning: Unable to initialized LLVM MC API!" and returns \<^verbatim>\<open>not_supported\<close> when
  the decoder engine does not validate. What holds, for a file name that is \<^verbatim>\<open>"-"\<close>
  or names an existing file and that \<^verbatim>\<open>createBinary\<close> does not recognise. The load
  writes "Unknown file format" with the message of the error to standard error. If the
  bytes cannot be read, it then writes a second message and returns the read error. If
  they can, the load returns (it does not die), the bytes are wrapped as a dummy object
  file, and the director and the disassembler are built over it; when the director is
  valid the result is success and nothing more is written, and when it is not the warning
  is written to standard error and the result is \<^verbatim>\<open>not_supported\<close>. Nothing is written
  to standard output.
\<close>

theorem C7_unrecognised_format:
  assumes "createBinary E F = Inl err" and "F = ''-'' \<or> fs_exists E F"
  shows "(\<forall>err2. MemoryBuffer_getFile E F = Inl err2 \<longrightarrow>
            map_option (\<lambda>(r, g'). (r, io g')) (returned (loadBinary E opts F g)) =
              Some (Some err2,
                    io g @ [Errs (ProgramName g @ '': Unknown file format: '' @ quote @ F @ quote
                                  @ ''.'' @ nl @ '' Error Msg: '' @ message err @ nl),
                            Errs (ProgramName g @ '': BLAH!: '' @ quote @ F @ quote @ ''.'' @ nl)])) \<and>
         (\<forall>MemBuf. MemoryBuffer_getFile E F = Inr MemBuf \<longrightarrow>
            (\<exists>g'. loadBinary E opts F g =
                     Ret (if MCDirector_isValid E (fst (the (MCD g'))) (snd (the (MCD g')))
                          then None else Some errc_not_supported, g') \<and>
                   TempExecutable g' = Some (createDummyObjectFile (dummy_past_end E) MemBuf) \<and>
                   DAS g' = Some (TempExecutable g') \<and>
                   MCD g' \<noteq> None \<and> fst (the (MCD g')) = TripleName g' \<and>
                   io g' =
                     io g @ [Errs (ProgramName g @ '': Unknown file format: '' @ quote @ F @ quote
                                   @ ''.'' @ nl @ '' Error Msg: '' @ message err @ nl)]
                     @ (if MCDirector_isValid E (fst (the (MCD g'))) (snd (the (MCD g')))
                        then []
                        else [Errs (''Warning: Unable to initialized LLVM MC API!'' @ nl)])))"
  using assms
  by (auto simp: loadBinary_def initDisassembler_def returned_def errs_def Let_def)

text \<open>
  Readable input that is not recognised, with a decoder engine that does not validate:
  the load fails, and not with a read error.
\<close>

theorem C7_load_fails_on_invalid_decoder:
  "createBinary text_file_env ''-'' = Inl (other_error ''Invalid file type'') \<and>
   MemoryBuffer_getFile text_file_env ''-'' = Inr [0x68, 0x69, 0x0A] \<and>
   map_option fst (returned (loadBinary text_file_env example_options ''-'' (initial_globals example_options)))
     = Some (Some errc_not_supported)"
  by (simp add: text_file_load_status) (simp add: example_defs)

theorem C7_unrecognised_format_witness:
  "(createBinary unreadable_env ''-'' = Inl (other_error ''Invalid file type'') \<and>
    MemoryBuffer_getFile unreadable_env ''-'' = Inl (other_error ''Is a directory'') \<and>
    map_option (\<lambda>(r, g'). (r, io g'))
      (returned (loadBinary unreadable_env example_options ''-'' (initial_globals example_options)))
      = Some (Some (other_error ''Is a directory''),
              [Errs (''fracture-autodis: Unknown file format: '' @ quote @ ''-'' @ quote @ ''.'' @ nl
                     @ '' Error Msg: Invalid file type'' @ nl),
               Errs (''fracture-autodis: BLAH!: '' @ quote @ ''-'' @ quote @ ''.'' @ nl)])) \<and>
   (createBinary text_file_env ''-'' = Inl (other_error ''Invalid file type'') \<and>
    MemoryBuffer_getFile text_file_env ''-'' = Inr [0x68, 0x69, 0x0A] \<and>
    (\<exists>g'. loadBinary text_file_env example_options ''-'' (initial_globals example_options) =
             Ret (Some errc_not_supported, g') \<and>
           TempExecutable g' =
             Some (createDummyObjectFile (dummy_past_end text_file_env) [0x68, 0x69, 0x0A]) \<and>
           DAS g' = Some (TempExecutable g') \<and>
           io g' =
             [Errs (''fracture-autodis: Unknown file format: '' @ quote @ ''-'' @ quote @ ''.'' @ nl
                    @ '' Error Msg: Invalid file type'' @ nl),
              Errs (''Warning: Unable to initialized LLVM MC API!'' @ nl)])) \<and>
   (createBinary raw_bytes_env ''-'' = Inl (other_error ''Invalid file type'') \<and>
    MemoryBuffer_getFile raw_bytes_env ''-'' = Inr [0x68, 0x69, 0x0A] \<and>
    (\<exists>g'. loadBinary raw_bytes_env example_options ''-'' (initial_globals example_options) =
             Ret (None, g') \<and>
           TempExecutable g' =
             Some (createDummyObjectFile (dummy_past_end raw_bytes_env) [0x68, 0x69, 0x0A]) \<and>
           DAS g' = Some (TempExecutable g') \<and>
           io g' =
             [Errs (''fracture-autodis: Unknown file format: '' @ quote @ ''-'' @ quote @ ''.'' @ nl
                    @ '' Error Msg: Invalid file type'' @ nl)]))"
proof -
  have u: "createBinary unreadable_env ''-'' = Inl (other_error ''Invalid file type'')"
    "MemoryBuffer_getFile unreadable_env ''-'' = Inl (other_error ''Is a directory'')"
    by (simp_all add: example_defs)
  have t: "createBinary text_file_env ''-'' = Inl (other_error ''Invalid file type'')"
    "MemoryBuffer_getFile text_file_env ''-'' = Inr [0x68, 0x69, 0x0A]"
    "\<And>a b. \<not> MCDirector_isValid text_file_env a b"
    by (simp_all add: example_defs)
  have r: "createBinary raw_bytes_env ''-'' = Inl (other_error ''Invalid file type'')"
    "MemoryBuffer_getFile raw_bytes_env ''-'' = Inr [0x68, 0x69, 0x0A]"
    "\<And>a b. MCDirector_isValid raw_bytes_env a b"
    by (simp_all add: example_defs)
  have p: "ProgramName (initial_globals example_options) = ''fracture-autodis''"
    "io (initial_globals example_options) = []"
    by (simp_all add: initial_globals_def example_options_def)
  show ?thesis
    using C7_unrecognised_format [OF u(1), where opts = example_options
        and g = "initial_globals example_options"]
      C7_unrecognised_format [OF t(1), where opts = example_options
        and g = "initial_globals example_options"]
      C7_unrecognised_format [OF r(1), where opts = example_options
        and g = "initial_globals example_options"]
      u t r p
    by auto
qed

subsection \<open>C8: the records of one function\<close>



subsection \<open>C9: symbols that are skipped\<close>

text \<open>
  C9: a symbol whose disassembly is absent (the null pointer), has no block, or has an
  empty first block is skipped: the loop over the symbols goes on with the next symbol
  from the state it had, so nothing is written for the skipped one. And no symbol ends the
  loop: the loop over a list of symbols is the loop over its first part followed by the
  loop over the rest, whatever the disassembler returned for any of them; and the exit
  status of a run is the same whatever the disassembler returns.
\<close>

theorem C9_skip_and_continue:
  "(sym_addr Sym = Inr SymAddr \<and> sym_name Sym = Inr SymName \<and>
    (disassemble E SymAddr = None \<or>
     (\<exists>MF. disassemble E SymAddr = Some MF \<and> (mf_blocks MF = [] \<or> hd (mf_blocks MF) = []))) \<longrightarrow>
      census_loop E (Sym # Symbols) g = census_loop E Symbols g) \<and>
   census_loop E (Symbols @ Symbols') g = census_loop E Symbols' (census_loop E Symbols g) \<and>
   exit_status (main (E\<lparr>disassemble := d\<rparr>) opts) = exit_status (main E opts)"
  using census_symbol_skips [of E SymAddr Sym SymName g] census_loop_append [of E Symbols Symbols' g]
    exit_status_disassemble [where E = E and d = d and opts = opts]
  by auto

theorem C9_skip_and_continue_witness:
  "(sym_addr (function_symbol ''bar'' 0x2008) = Inr 0x2008 \<and>
    sym_name (function_symbol ''bar'' 0x2008) = Inr ''bar'' \<and>
    disassemble census_env 0x2008 = None \<and>
    census_loop census_env [function_symbol ''bar'' 0x2008, function_symbol ''foo'' 0x1000]
        (loaded (example_object ELF64LE)) =
      census_loop census_env [function_symbol ''foo'' 0x1000] (loaded (example_object ELF64LE))) \<and>
   (disassemble hollow_env 0x1000 = Some \<lparr>mf_blocks = [], mf_sentinel = []\<rparr> \<and>
    census_loop hollow_env [function_symbol ''foo'' 0x1000] (loaded (example_object ELF64LE)) =
      census_loop hollow_env [] (loaded (example_object ELF64LE))) \<and>
   (disassemble hollow_env 0x2008 = Some \<lparr>mf_blocks = [[], [1]], mf_sentinel = []\<rparr> \<and>
    census_loop hollow_env [function_symbol ''bar'' 0x2008] (loaded (example_object ELF64LE)) =
      census_loop hollow_env [] (loaded (example_object ELF64LE)))"
proof -
  have s: "sym_addr (function_symbol ''bar'' 0x2008) = Inr 0x2008"
    "sym_name (function_symbol ''bar'' 0x2008) = Inr ''bar''"
    "sym_addr (function_symbol ''foo'' 0x1000) = Inr 0x1000"
    "sym_name (function_symbol ''foo'' 0x1000) = Inr ''foo''"
    by (simp_all add: function_symbol_def)
  have d: "disassemble census_env 0x2008 = None"
    "disassemble hollow_env 0x1000 = Some \<lparr>mf_blocks = [], mf_sentinel = []\<rparr>"
    "disassemble hollow_env 0x2008 = Some \<lparr>mf_blocks = [[], [1]], mf_sentinel = []\<rparr>"
    by (simp_all add: example_defs)
  show ?thesis
    using
      C9_skip_and_continue [where Sym = "function_symbol ''bar'' 0x2008" and SymAddr = "0x2008"
        and SymName = "''bar''" and E = census_env and Symbols = "[function_symbol ''foo'' 0x1000]"
        and g = "loaded (example_object ELF64LE)"]
      C9_skip_and_continue [where Sym = "function_symbol ''foo'' 0x1000" and SymAddr = "0x1000"
        and SymName = "''foo''" and E = hollow_env and Symbols = "[]"
        and g = "loaded (example_object ELF64LE)"]
      C9_skip_and_continue [where Sym = "function_symbol ''bar'' 0x2008" and SymAddr = "0x2008"
        and SymName = "''bar''" and E = hollow_env and Symbols = "[]"
        and g = "loaded (example_object ELF64LE)"]
      s d
    by simp
qed

subsection \<open>C10: the block iterator at the end of a function\<close>

text \<open>
  C10 has every dereference of the block iterator in the loop be on a block before the
  end of the function. After the last instruction of a block the loop does \<^verbatim>\<open>++BI\<close>
  and reads \<^verbatim>\<open>BI->instr_begin()\<close> and \<^verbatim>\<open>BI->instr_end()\<close> before
  \<^verbatim>\<open>BI != BE\<close> is tested again. Here the loop is evaluated as \<^verbatim>\<open>main\<close> enters it for
  the function of one block of two instructions: the positions it dereferences are 0, 0,
  1, 1, and position 1 is the end of a function of one block.
  (\<open>emit_loop_reads_past_end\<close> above: the same happens for every function none of whose
  blocks is empty.)
\<close>

theorem C10_loop_dereferences_the_end:
  "disassemble census_env 0x1000 = Some one_block_function \<and>
   length (mf_blocks one_block_function) = 1 \<and>
   snd (emit_loop census_env one_block_function 0 (mf_blocks one_block_function)
          (hd (mf_blocks one_block_function)) (loaded (example_object ELF64LE), []))
     = [0, 0, 1, 1]"
  by (simp add: example_defs emit_loop.simps outs_def Let_def)

end
